theory Spec2Isabelle
  imports Main
begin

section \<open>Data model\<close>

text \<open>
  A card as the engine uses it: \<open>id\<close>, \<open>suit\<close>, \<open>rank\<close>, the derived \<open>color\<close> and the
  \<open>removed\<close> flag that a Jack sets. The rank strings of the source
  (\<open>'A'\<close>, \<open>'2'\<close> .. \<open>'10'\<close>, \<open>'J'\<close>, \<open>'Q'\<close>, \<open>'K'\<close>) are the thirteen constructors of
  \<open>rank\<close>; the side strings \<open>'player'\<close> and \<open>'ai'\<close> are the two constructors of \<open>side\<close>.
\<close>

datatype suit = Hearts | Diamonds | Spades | Clubs

datatype color = Red | Black

datatype rank =
  Ace | Two | Three | Four | Five | Six | Seven | Eight | Nine | Ten | Jack | Queen | King

record card =
  cardId :: string
  suit :: suit
  rank :: rank
  color :: color
  removed :: bool

datatype side = Player | AI

datatype winner = PlayerWins | AIWins | Tie

record pile =
  cards :: "card list"

record playerState =
  hand :: "card list"
  piles :: "pile list"

record players =
  player :: playerState
  ai :: playerState

text \<open>
  The object literal \<open>moveEntry\<close> of \<open>placeCard\<close> has nine properties. \<open>runInvariants\<close>
  reads a tenth, \<open>pileBeforeSize\<close>; a property that an entry does not have reads as
  \<open>undefined\<close> in the source, which is \<open>None\<close> here.
\<close>

record moveEntry =
  actor :: side
  target :: side
  cardRank :: rank
  pileIndex :: nat
  targetVisibleIndex :: "nat option"
  aiEnabledAtMove :: bool
  prevTurn :: side
  nextTurn :: side
  time :: nat
  pileBeforeSize :: "nat option"

record game =
  deck :: "card list"
  players :: players
  turn :: side
  aiEnabled :: bool
  gameOver :: bool
  winner :: "winner option"
  message :: "string option"
  moveCount :: nat
  moveLog :: "moveEntry list"

text \<open>The result of the move validator, \<open>{ok, reason?}\<close>.\<close>

record validation =
  ok :: bool
  reason :: "string option"

text \<open>
  Reading a property of \<open>undefined\<close> raises a \<open>TypeError\<close> in the source; that is the
  only way \<open>placeCard\<close> can raise.
\<close>

datatype error = TypeError

section \<open>Helpers of the source language\<close>

text \<open>\<open>g.players[side]\<close> and the assignment \<open>newPlayers[side] = p\<close>.\<close>

definition playerOf :: "side \<Rightarrow> players \<Rightarrow> playerState" where
  "playerOf s ps = (case s of Player \<Rightarrow> player ps | AI \<Rightarrow> ai ps)"

definition setPlayer :: "side \<Rightarrow> playerState \<Rightarrow> players \<Rightarrow> players" where
  "setPlayer s p ps = (case s of Player \<Rightarrow> ps\<lparr>player := p\<rparr> | AI \<Rightarrow> ps\<lparr>ai := p\<rparr>)"

text \<open>\<open>Array.prototype.findIndex\<close>: the first index whose element satisfies the
  predicate; the source's \<open>-1\<close> is \<open>None\<close>.\<close>

fun findIndex :: "('a \<Rightarrow> bool) \<Rightarrow> 'a list \<Rightarrow> nat option" where
  "findIndex P [] = None"
| "findIndex P (x # xs) =
     (if P x then Some 0 else map_option Suc (findIndex P xs))"

text \<open>\<open>xs[i]\<close>, which is \<open>undefined\<close> out of range.\<close>

definition at :: "'a list \<Rightarrow> nat \<Rightarrow> 'a option" where
  "at xs i = (if i < length xs then Some (xs ! i) else None)"

text \<open>\<open>xs.splice(i, 0, x)\<close> on a copy: a start index beyond the end is clamped to the
  length, so the element is appended.\<close>

definition spliceInsert :: "nat \<Rightarrow> 'a \<Rightarrow> 'a list \<Rightarrow> 'a list" where
  "spliceInsert i x xs = take i xs @ [x] @ drop i xs"

text \<open>\<open>xs.splice(i, 1)\<close> on a copy.\<close>

definition spliceRemove :: "nat \<Rightarrow> 'a list \<Rightarrow> 'a list" where
  "spliceRemove i xs = take i xs @ drop (Suc i) xs"

text \<open>\<open>xs.map((p, idx) => f(p, idx))\<close>.\<close>

definition mapIdx :: "('a \<Rightarrow> nat \<Rightarrow> 'b) \<Rightarrow> 'a list \<Rightarrow> 'b list" where
  "mapIdx f xs = map (\<lambda>(idx, p). f p idx) (enumerate 0 xs)"

text \<open>\<open>hand.findIndex((c) => c.id === cardId)\<close>.\<close>

definition handIndexOf :: "string \<Rightarrow> card list \<Rightarrow> nat option" where
  "handIndexOf cid h = findIndex (\<lambda>c. cardId c = cid) h"

text \<open>\<open>actorSide === 'player' ? 'ai' : 'player'\<close>.\<close>

definition opponent :: "side \<Rightarrow> side" where
  "opponent s = (if s = Player then AI else Player)"

section \<open>Card predicates and the deck\<close>

text \<open>
  Modelled from the spec: \<open>isNumericOrAce\<close> and \<open>isFaceCard\<close> are imported from
  \<open>game/rules.js\<close>, which is not among the sources. The spec has ranks A, 2-10, J, Q, K
  and calls Jack, Queen and King the face cards; every other rank is numeric or Ace.
\<close>

definition isFaceCard :: "card \<Rightarrow> bool" where
  "isFaceCard c = (rank c = Jack \<or> rank c = Queen \<or> rank c = King)"

definition isNumericOrAce :: "card \<Rightarrow> bool" where
  "isNumericOrAce c = (\<not> isFaceCard c)"

text \<open>
  Modelled from the spec: \<open>drawOne\<close> is imported from \<open>game/cardUtils.js\<close>, which is
  not among the sources. The spec: it removes and returns (card-or-none, remaining),
  drawing from the front; an empty deck yields none and the same empty deck.
\<close>

fun drawOne :: "card list \<Rightarrow> card option \<times> card list" where
  "drawOne [] = (None, [])"
| "drawOne (c # rest) = (Some c, rest)"

section \<open>The game state machine: placeCard\<close>

text \<open>
  The part of \<open>placeCard\<close> between the validator and the draw: it computes \<open>newRaw\<close>,
  the pile after the card is put on it, or returns the rejection message of one of the
  three face-card checks.
\<close>

definition resolveNewRaw :: "card \<Rightarrow> card list \<Rightarrow> nat option \<Rightarrow> string + card list" where
  "resolveNewRaw c pileCards tvi =
     (if isNumericOrAce c then Inr (pileCards @ [c])
      else if pileCards \<noteq> [] \<and> tvi = None
        then Inl ''Choose a specific card to place J/Q/K onto.''
      else (case tvi of
          None \<Rightarrow>
            if rank c = King then Inl ''King must be placed on a number or Ace.''
            else Inr (pileCards @ [c])
        | Some t \<Rightarrow>
            let insertAt = t + 1;
                targetCard = at pileCards t
            in if rank c = King \<and>
                  \<not> (case targetCard of None \<Rightarrow> False
                       | Some tc \<Rightarrow> isNumericOrAce tc \<and> \<not> removed tc)
               then Inl ''King must be placed on a number or Ace that is not removed.''
               else
                 let spliced = spliceInsert insertAt c pileCards
                 in Inr (if rank c = Jack
                         then (case targetCard of None \<Rightarrow> spliced
                               | Some tc \<Rightarrow> spliced[t := tc\<lparr>removed := True\<rparr>])
                         else spliced)))"

text \<open>\<open>validation.reason || 'Invalid move.'\<close>: an absent or empty reason gives the
  default text.\<close>

definition reasonOrDefault :: "validation \<Rightarrow> string" where
  "reasonOrDefault v =
     (case reason v of None \<Rightarrow> ''Invalid move.''
      | Some r \<Rightarrow> if r = [] then ''Invalid move.'' else r)"

text \<open>
  The updater that \<open>placeCard\<close> hands to \<open>setGame\<close>, as a function of the state \<open>g\<close>.
  The validator \<open>canPlaceCardOnTargetWithReason\<close> lives in \<open>game/rules.js\<close>, which is
  not among the sources, so it is the parameter \<open>validate\<close>; \<open>now\<close> is the value of
  \<open>Date.now()\<close>. \<open>target.piles[pileIndex]\<close> is \<open>undefined\<close> for an index that is out of
  range, and reading \<open>.cards\<close> of it raises.
\<close>

definition placeCard ::
  "(card \<Rightarrow> card list \<Rightarrow> side \<Rightarrow> side \<Rightarrow> validation) \<Rightarrow> nat \<Rightarrow>
   side \<Rightarrow> side \<Rightarrow> string \<Rightarrow> nat \<Rightarrow> nat option \<Rightarrow> game \<Rightarrow> error + game" where
  "placeCard validate now actorSide targetSide cid pileIdx tvi g =
     (if gameOver g then Inr g
      else
        let actorP = playerOf actorSide (players g);
            targetP = playerOf targetSide (players g)
        in case handIndexOf cid (hand actorP) of
             None \<Rightarrow> Inr g
           | Some handIndex \<Rightarrow>
               let c = hand actorP ! handIndex
               in (case at (piles targetP) pileIdx of
                    None \<Rightarrow> Inl TypeError
                  | Some targetPile \<Rightarrow>
                      let pileCards = cards targetPile;
                          v = validate c pileCards actorSide targetSide
                      in if \<not> ok v then Inr (g\<lparr>message := Some (reasonOrDefault v)\<rparr>)
                         else (case resolveNewRaw c pileCards tvi of
                             Inl msg \<Rightarrow> Inr (g\<lparr>message := Some msg\<rparr>)
                           | Inr newRaw \<Rightarrow>
                               let (drawn, newDeck) = drawOne (deck g);
                                   newActorHand =
                                     spliceRemove handIndex (hand actorP) @
                                     (case drawn of None \<Rightarrow> [] | Some d \<Rightarrow> [d]);
                                   np1 = setPlayer actorSide
                                     ((playerOf actorSide (players g))\<lparr>hand := newActorHand\<rparr>)
                                     (players g);
                                   np2 = setPlayer targetSide
                                     ((playerOf targetSide np1)
                                        \<lparr>piles := mapIdx (\<lambda>p idx.
                                            if idx = pileIdx then p\<lparr>cards := newRaw\<rparr> else p)
                                          (piles (playerOf targetSide np1))\<rparr>)
                                     np1;
                                   nextT = opponent actorSide;
                                   entry = \<lparr>actor = actorSide, target = targetSide,
                                     cardRank = rank c, pileIndex = pileIdx,
                                     targetVisibleIndex = tvi,
                                     aiEnabledAtMove = aiEnabled g,
                                     prevTurn = turn g, nextTurn = nextT, time = now,
                                     pileBeforeSize = None\<rparr>
                               in Inr (g\<lparr>players := np2, deck := newDeck, turn := nextT,
                                        moveCount := moveCount g + 1, message := None,
                                        moveLog := moveLog g @ [entry]\<rparr>))))"

section \<open>The end condition\<close>

text \<open>
  \<open>computePlayerTotals\<close> returns \<open>{perPile, total}\<close>. The component \<open>App\<close> computes the
  totals of both sides from the piles and derives \<open>playerAllInRange\<close> and
  \<open>aiAllInRange\<close> with \<open>perPile.every(isInRange)\<close>; \<open>decideWinnerIfAny\<close> reads those
  four values, so it is a function of the two totals here.
\<close>

record totals =
  perPile :: "int list"
  total :: int

definition isInRange :: "int \<Rightarrow> bool" where
  "isInRange t = (t \<ge> 21 \<and> t \<le> 26)"

definition allInRange :: "totals \<Rightarrow> bool" where
  "allInRange tt = list_all isInRange (perPile tt)"

definition decideWinnerIfAny :: "totals \<Rightarrow> totals \<Rightarrow> winner option" where
  "decideWinnerIfAny playerTotals aiTotals =
     (let playerAllInRange = allInRange playerTotals;
          aiAllInRange = allInRange aiTotals
      in if \<not> playerAllInRange \<and> \<not> aiAllInRange then None
         else if playerAllInRange \<and> \<not> aiAllInRange then Some PlayerWins
         else if aiAllInRange \<and> \<not> playerAllInRange then Some AIWins
         else if total playerTotals > total aiTotals then Some PlayerWins
         else if total aiTotals > total playerTotals then Some AIWins
         else Some Tie)"

text \<open>
  The effect that stops the game: it does nothing when the game is over already or
  when \<open>decideWinnerIfAny\<close> returns \<open>null\<close>, and otherwise sets \<open>gameOver\<close> and \<open>winner\<close>.
\<close>

definition endConditionEffect :: "totals \<Rightarrow> totals \<Rightarrow> game \<Rightarrow> game" where
  "endConditionEffect playerTotals aiTotals g =
     (if gameOver g then g
      else (case decideWinnerIfAny playerTotals aiTotals of
          None \<Rightarrow> g
        | Some w \<Rightarrow> g\<lparr>gameOver := True, winner := Some w\<rparr>))"

section \<open>The pile evaluator\<close>

text \<open>
  Modelled from the spec: \<open>getCardValue\<close>, the pile total and \<open>computePlayerTotals\<close> are
  in \<open>game/rules.js\<close>, which is not among the sources. The spec: A=1, 2-10 literal,
  J/Q=0, and a King has no value of its own but doubles the numeric/Ace card it is
  bound to. The total is a fold over raw order that keeps a running multiplier per
  numeric/Ace slot, reset whenever a new numeric/Ace card begins a slot; removed cards
  contribute 0, and a live card is one that is not marked removed; a removed King is
  read as contributing nothing, so it doubles nothing. The state of the fold is (total
  of the closed slots, base value of the open slot, its multiplier).
  \<open>computePlayerTotals\<close> gives the per-pile totals plus the grand total.
\<close>

fun rankValue :: "rank \<Rightarrow> int" where
  "rankValue Ace = 1"
| "rankValue Two = 2"
| "rankValue Three = 3"
| "rankValue Four = 4"
| "rankValue Five = 5"
| "rankValue Six = 6"
| "rankValue Seven = 7"
| "rankValue Eight = 8"
| "rankValue Nine = 9"
| "rankValue Ten = 10"
| "rankValue Jack = 0"
| "rankValue Queen = 0"
| "rankValue King = 0"

definition getCardValue :: "card \<Rightarrow> int" where
  "getCardValue c = rankValue (rank c)"

definition isLiveKing :: "card \<Rightarrow> bool" where
  "isLiveKing c = (rank c = King \<and> \<not> removed c)"

fun totalStep :: "int \<times> int \<times> int \<Rightarrow> card \<Rightarrow> int \<times> int \<times> int" where
  "totalStep (closed, base, mult) c =
     (if isNumericOrAce c
        then (closed + base * mult, (if removed c then 0 else getCardValue c), 1)
      else if isLiveKing c then (closed, base, mult * 2)
      else (closed, base, mult))"

definition computePileTotal :: "card list \<Rightarrow> int" where
  "computePileTotal rawCards =
     (case foldl totalStep (0, 0, 1) rawCards of
        (closed, base, mult) \<Rightarrow> closed + base * mult)"

definition computePlayerTotals :: "pile list \<Rightarrow> totals" where
  "computePlayerTotals ps =
     (let per = map (\<lambda>p. computePileTotal (cards p)) ps
      in \<lparr>perPile = per, total = sum_list per\<rparr>)"

text \<open>
  The spec's sentence about the total, written out: the Kings bound to a numeric/Ace
  card are the live Kings between it and the next numeric/Ace card, each of them a
  factor 2, and the total is the sum over the live numeric/Ace cards.
\<close>

fun kingsBound :: "card list \<Rightarrow> nat" where
  "kingsBound [] = 0"
| "kingsBound (c # cs) =
     (if isNumericOrAce c then 0
      else (if isLiveKing c then 1 else 0) + kingsBound cs)"

definition effectiveValue :: "card list \<Rightarrow> nat \<Rightarrow> int" where
  "effectiveValue rawCards i =
     (if isNumericOrAce (rawCards ! i) \<and> \<not> removed (rawCards ! i)
      then getCardValue (rawCards ! i) * 2 ^ kingsBound (drop (Suc i) rawCards)
      else 0)"

definition pileTotalSpec :: "card list \<Rightarrow> int" where
  "pileTotalSpec rawCards = (\<Sum>i < length rawCards. effectiveValue rawCards i)"

section \<open>The move validator\<close>

text \<open>
  Modelled from the spec: the direction state of a pile is computed in
  \<open>game/rules.js\<close>, which is not among the sources. The spec: scan the live
  numeric/Ace cards in raw order; the first two distinct consecutive values fix
  ascending or descending; equal values never establish a direction; a Queen anywhere
  in the pile flips the direction context for all comparisons from that point forward,
  and a Queen is legal on an empty pile too, where it reverses the context as well.
  The state of the scan is (value of the last live numeric/Ace card, direction of the
  first two distinct consecutive live values, whether the context is reversed). Every
  Queen reverses the context, whether a direction is fixed yet or not, so a Queen on an
  empty pile or before the second distinct value reverses the direction that is fixed
  later. The direction state is the last live value and the direction read in the
  context.
\<close>

datatype direction = Ascending | Descending

definition flipDirection :: "direction \<Rightarrow> direction" where
  "flipDirection d = (case d of Ascending \<Rightarrow> Descending | Descending \<Rightarrow> Ascending)"

definition isLiveNumeric :: "card \<Rightarrow> bool" where
  "isLiveNumeric c = (isNumericOrAce c \<and> \<not> removed c)"

fun directionStep ::
  "int option \<times> direction option \<times> bool \<Rightarrow> card \<Rightarrow> int option \<times> direction option \<times> bool" where
  "directionStep (lastV, dir, reversed) c =
     (if rank c = Queen then (lastV, dir, \<not> reversed)
      else if isLiveNumeric c then
        (Some (getCardValue c),
         (case dir of
            Some d \<Rightarrow> Some d
          | None \<Rightarrow>
              (case lastV of
                 None \<Rightarrow> None
               | Some p \<Rightarrow>
                   if p < getCardValue c then Some Ascending
                   else if getCardValue c < p then Some Descending
                   else None)),
         reversed)
      else (lastV, dir, reversed))"

definition directionState :: "card list \<Rightarrow> int option \<times> direction option" where
  "directionState rawCards =
     (case foldl directionStep (None, None, False) rawCards of
        (lastV, dir, reversed) \<Rightarrow>
          (lastV, if reversed then map_option flipDirection dir else dir))"

definition liveNumericValues :: "card list \<Rightarrow> int list" where
  "liveNumericValues rawCards = map getCardValue (filter isLiveNumeric rawCards)"





text \<open>
  Modelled from the spec: \<open>canPlaceCardOnTargetWithReason\<close> is in \<open>game/rules.js\<close>,
  which is not among the sources. The spec gives its rules in their order of
  evaluation: (1) on an opponent pile the card must be J/Q/K and the pile non-empty;
  (2) a numeric/Ace card is legal when fewer than two live numeric/Ace cards exist, and
  otherwise must be strictly greater than the last live value if the direction is
  ascending and strictly less if it is descending; (3) a King needs a non-empty pile
  and, with no target index given, at least one live numeric/Ace card on it; (4) a Jack
  needs a non-empty pile; (5) a Queen is legal. The spec gives no reason texts, so a
  rejection carries none.
\<close>

definition numericLegal :: "card \<Rightarrow> card list \<Rightarrow> bool" where
  "numericLegal c rawCards =
     (if length (liveNumericValues rawCards) < 2 then True
      else (case directionState rawCards of
          (Some p, Some Ascending) \<Rightarrow> p < getCardValue c
        | (Some p, Some Descending) \<Rightarrow> getCardValue c < p
        | _ \<Rightarrow> True))"

definition accept :: validation where
  "accept = \<lparr>ok = True, reason = None\<rparr>"

definition reject :: validation where
  "reject = \<lparr>ok = False, reason = None\<rparr>"

definition canPlaceCardOnTargetWithReason ::
  "card \<Rightarrow> card list \<Rightarrow> side \<Rightarrow> side \<Rightarrow> validation" where
  "canPlaceCardOnTargetWithReason c pileRawCards actorSide targetSide =
     (if targetSide \<noteq> actorSide \<and> (\<not> isFaceCard c \<or> pileRawCards = []) then reject
      else if isNumericOrAce c then
        (if numericLegal c pileRawCards then accept else reject)
      else if rank c = King then
        (if pileRawCards \<noteq> [] \<and> list_ex isLiveNumeric pileRawCards then accept else reject)
      else if rank c = Jack then
        (if pileRawCards \<noteq> [] then accept else reject)
      else accept)"

text \<open>
  Modelled from the spec: \<open>canPlaceCardOnTarget\<close> is in \<open>game/rules.js\<close>, which is not
  among the sources; it is the validator's verdict without the reason.
\<close>

definition canPlaceCardOnTarget :: "card \<Rightarrow> card list \<Rightarrow> side \<Rightarrow> side \<Rightarrow> bool" where
  "canPlaceCardOnTarget c pileRawCards actorSide targetSide =
     ok (canPlaceCardOnTargetWithReason c pileRawCards actorSide targetSide)"

section \<open>Drop probes and drop handlers\<close>

text \<open>
  The drag payload \<open>{source, owner, cardId}\<close>; \<open>owner\<close> is a string that the probe
  compares with \<open>'player'\<close> and \<open>'ai'\<close>. A missing payload is \<open>None\<close>.
\<close>

record payload =
  source :: string
  owner :: string
  payloadCardId :: string

definition sideOfString :: "string \<Rightarrow> side option" where
  "sideOfString s =
     (if s = ''player'' then Some Player else if s = ''ai'' then Some AI else None)"

definition canDropOnTargetPileContainer ::
  "(card \<Rightarrow> card list \<Rightarrow> side \<Rightarrow> side \<Rightarrow> bool) \<Rightarrow> game \<Rightarrow>
   side \<Rightarrow> nat \<Rightarrow> payload option \<Rightarrow> error + bool" where
  "canDropOnTargetPileContainer can g targetSide pileIdx pl =
     (case pl of
        None \<Rightarrow> Inr False
      | Some p \<Rightarrow>
          if source p \<noteq> ''hand'' then Inr False
          else (case sideOfString (owner p) of
              None \<Rightarrow> Inr False
            | Some actorSide \<Rightarrow>
                if actorSide \<noteq> turn g then Inr False
                else (case find (\<lambda>c. cardId c = payloadCardId p)
                             (hand (playerOf actorSide (players g))) of
                    None \<Rightarrow> Inr False
                  | Some c \<Rightarrow>
                      if \<not> isNumericOrAce c then Inr False
                      else (case at (piles (playerOf targetSide (players g))) pileIdx of
                          None \<Rightarrow> Inl TypeError
                        | Some tp \<Rightarrow> Inr (can c (cards tp) actorSide targetSide)))))"

definition canDropOnTargetPileCard ::
  "(card \<Rightarrow> card list \<Rightarrow> side \<Rightarrow> side \<Rightarrow> bool) \<Rightarrow> game \<Rightarrow>
   side \<Rightarrow> nat \<Rightarrow> nat \<Rightarrow> payload option \<Rightarrow> error + bool" where
  "canDropOnTargetPileCard can g targetSide pileIdx tvi pl =
     (case pl of
        None \<Rightarrow> Inr False
      | Some p \<Rightarrow>
          if source p \<noteq> ''hand'' then Inr False
          else (case sideOfString (owner p) of
              None \<Rightarrow> Inr False
            | Some actorSide \<Rightarrow>
                if actorSide \<noteq> turn g then Inr False
                else (case find (\<lambda>c. cardId c = payloadCardId p)
                             (hand (playerOf actorSide (players g))) of
                    None \<Rightarrow> Inr False
                  | Some c \<Rightarrow>
                      if \<not> isFaceCard c then Inr False
                      else (case at (piles (playerOf targetSide (players g))) pileIdx of
                          None \<Rightarrow> Inl TypeError
                        | Some tp \<Rightarrow>
                            if \<not> can c (cards tp) actorSide targetSide then Inr False
                            else if rank c = King \<and>
                                    \<not> (case at (cards tp) tvi of None \<Rightarrow> False
                                         | Some tc \<Rightarrow> isNumericOrAce tc \<and> \<not> removed tc)
                              then Inr False
                            else Inr True))))"

text \<open>
  The four drop handlers, each as a function of the state. \<open>parsed\<close> is the result of
  \<open>JSON.parse(data)\<close>: \<open>None\<close> stands for data that does not parse to an object, where
  the \<open>try\<close> block raises and the \<open>catch\<close> ignores it. \<open>actor !== game.turn\<close> compares
  the owner string of the payload with the turn. The two container handlers differ
  only in the side they pass to \<open>placeCard\<close>, and so do the two card handlers.
\<close>

definition dropOnPileContainer ::
  "(card \<Rightarrow> card list \<Rightarrow> side \<Rightarrow> side \<Rightarrow> validation) \<Rightarrow> nat \<Rightarrow> side \<Rightarrow>
   game \<Rightarrow> nat \<Rightarrow> payload option \<Rightarrow> error + game" where
  "dropOnPileContainer validate now targetSide g pileIdx parsed =
     (if gameOver g then Inr g
      else (case parsed of
          None \<Rightarrow> Inr g
        | Some p \<Rightarrow>
            if source p \<noteq> ''hand'' then Inr g
            else (case sideOfString (owner p) of
                None \<Rightarrow> Inr g
              | Some actorSide \<Rightarrow>
                  if actorSide \<noteq> turn g then Inr g
                  else (case find (\<lambda>c. cardId c = payloadCardId p)
                               (hand (playerOf actorSide (players g))) of
                      None \<Rightarrow> Inr g
                    | Some c \<Rightarrow>
                        if \<not> isNumericOrAce c then
                          Inr (g\<lparr>message := Some
                            ''Picture cards (J/Q/K) must be dropped onto a specific card.''\<rparr>)
                        else placeCard validate now actorSide targetSide (payloadCardId p)
                               pileIdx None g))))"

definition onDropToPlayerPileContainer ::
  "(card \<Rightarrow> card list \<Rightarrow> side \<Rightarrow> side \<Rightarrow> validation) \<Rightarrow> nat \<Rightarrow>
   game \<Rightarrow> nat \<Rightarrow> payload option \<Rightarrow> error + game" where
  "onDropToPlayerPileContainer validate now g pileIdx parsed =
     dropOnPileContainer validate now Player g pileIdx parsed"

definition onDropToAiPileContainer ::
  "(card \<Rightarrow> card list \<Rightarrow> side \<Rightarrow> side \<Rightarrow> validation) \<Rightarrow> nat \<Rightarrow>
   game \<Rightarrow> nat \<Rightarrow> payload option \<Rightarrow> error + game" where
  "onDropToAiPileContainer validate now g pileIdx parsed =
     dropOnPileContainer validate now AI g pileIdx parsed"

definition dropOnPileCard ::
  "(card \<Rightarrow> card list \<Rightarrow> side \<Rightarrow> side \<Rightarrow> validation) \<Rightarrow> nat \<Rightarrow> side \<Rightarrow>
   game \<Rightarrow> nat \<Rightarrow> nat \<Rightarrow> payload option \<Rightarrow> error + game" where
  "dropOnPileCard validate now targetSide g pileIdx tvi parsed =
     (if gameOver g then Inr g
      else (case parsed of
          None \<Rightarrow> Inr g
        | Some p \<Rightarrow>
            if source p \<noteq> ''hand'' then Inr g
            else (case sideOfString (owner p) of
                None \<Rightarrow> Inr g
              | Some actorSide \<Rightarrow>
                  if actorSide \<noteq> turn g then Inr g
                  else (case find (\<lambda>c. cardId c = payloadCardId p)
                               (hand (playerOf actorSide (players g))) of
                      None \<Rightarrow> Inr g
                    | Some c \<Rightarrow>
                        if \<not> isFaceCard c then Inr g
                        else placeCard validate now actorSide targetSide (payloadCardId p)
                               pileIdx (Some tvi) g))))"

definition onDropToPlayerPileCard ::
  "(card \<Rightarrow> card list \<Rightarrow> side \<Rightarrow> side \<Rightarrow> validation) \<Rightarrow> nat \<Rightarrow>
   game \<Rightarrow> nat \<Rightarrow> nat \<Rightarrow> payload option \<Rightarrow> error + game" where
  "onDropToPlayerPileCard validate now g pileIdx tvi parsed =
     dropOnPileCard validate now Player g pileIdx tvi parsed"

definition onDropToAiPileCard ::
  "(card \<Rightarrow> card list \<Rightarrow> side \<Rightarrow> side \<Rightarrow> validation) \<Rightarrow> nat \<Rightarrow>
   game \<Rightarrow> nat \<Rightarrow> nat \<Rightarrow> payload option \<Rightarrow> error + game" where
  "onDropToAiPileCard validate now g pileIdx tvi parsed =
     dropOnPileCard validate now AI g pileIdx tvi parsed"

section \<open>The AI move generator\<close>

text \<open>A candidate of the AI, \<open>{actor, target, cardId, pileIndex, tvi}\<close>.\<close>

record aiMove =
  mvActor :: side
  mvTarget :: side
  mvCardId :: string
  mvPileIndex :: nat
  mvTvi :: "nat option"

text \<open>Running a loop body that may raise over a list and concatenating what it pushes.\<close>

fun collect :: "('a \<Rightarrow> error + 'b list) \<Rightarrow> 'a list \<Rightarrow> error + 'b list" where
  "collect f [] = Inr []"
| "collect f (x # xs) =
     (case f x of
        Inl e \<Rightarrow> Inl e
      | Inr ys \<Rightarrow> (case collect f xs of Inl e \<Rightarrow> Inl e | Inr zs \<Rightarrow> Inr (ys @ zs)))"

text \<open>The body of the first loop of the enumeration, over the AI's own piles.\<close>

definition ownPileMoves ::
  "(card \<Rightarrow> card list \<Rightarrow> side \<Rightarrow> side \<Rightarrow> bool) \<Rightarrow> game \<Rightarrow> card \<Rightarrow> nat \<Rightarrow>
   error + aiMove list" where
  "ownPileMoves can g c i =
     (case at (piles (ai (players g))) i of
        None \<Rightarrow> Inl TypeError
      | Some p \<Rightarrow>
          Inr (if can c (cards p) AI AI then
                 (if isFaceCard c \<and> length (cards p) > 0 then
                    [\<lparr>mvActor = AI, mvTarget = AI, mvCardId = cardId c, mvPileIndex = i,
                      mvTvi = Some (length (cards p) - 1)\<rparr>]
                  else if isNumericOrAce c then
                    [\<lparr>mvActor = AI, mvTarget = AI, mvCardId = cardId c, mvPileIndex = i,
                      mvTvi = None\<rparr>]
                  else [])
               else []))"

text \<open>The body of the second loop, over the opponent's piles.\<close>

definition opponentPileMoves ::
  "(card \<Rightarrow> card list \<Rightarrow> side \<Rightarrow> side \<Rightarrow> bool) \<Rightarrow> game \<Rightarrow> card \<Rightarrow> nat \<Rightarrow>
   error + aiMove list" where
  "opponentPileMoves can g c i =
     (case at (piles (player (players g))) i of
        None \<Rightarrow> Inl TypeError
      | Some p \<Rightarrow>
          Inr (if can c (cards p) AI Player \<and> isFaceCard c \<and> length (cards p) > 0 then
                 [\<lparr>mvActor = AI, mvTarget = Player, mvCardId = cardId c, mvPileIndex = i,
                   mvTvi = Some (length (cards p) - 1)\<rparr>]
               else []))"

definition aiMoves ::
  "(card \<Rightarrow> card list \<Rightarrow> side \<Rightarrow> side \<Rightarrow> bool) \<Rightarrow> game \<Rightarrow> error + aiMove list" where
  "aiMoves can g =
     collect (\<lambda>c.
        case collect (ownPileMoves can g c) [0, 1, 2] of
          Inl e \<Rightarrow> Inl e
        | Inr own \<Rightarrow>
            (case collect (opponentPileMoves can g c) [0, 1, 2] of
               Inl e \<Rightarrow> Inl e
             | Inr opp \<Rightarrow> Inr (own @ opp)))
       (hand (ai (players g)))"

text \<open>
  The timer callback of the AI effect, run on the current state \<open>g\<close>.
  \<open>currentToken\<close> is \<open>aiMoveTokenRef.current\<close> when the timer fires, \<open>localToken\<close> and
  \<open>scheduledMoveCount\<close> are the values captured at scheduling time, and \<open>r\<close> stands for
  the random draw: \<open>Math.floor(Math.random() * moves.length)\<close> is an index below
  \<open>moves.length\<close>, here \<open>r mod length moves\<close>. The second read of \<open>gameRef.current\<close>
  follows the first with nothing in between, so its guards repeat the first ones.
\<close>

definition aiTimerCallback ::
  "(card \<Rightarrow> card list \<Rightarrow> side \<Rightarrow> side \<Rightarrow> bool) \<Rightarrow>
   (card \<Rightarrow> card list \<Rightarrow> side \<Rightarrow> side \<Rightarrow> validation) \<Rightarrow> nat \<Rightarrow> nat \<Rightarrow>
   nat \<Rightarrow> nat \<Rightarrow> nat \<Rightarrow> game \<Rightarrow> error + game" where
  "aiTimerCallback can validate now r currentToken localToken scheduledMoveCount g =
     (if gameOver g \<or> \<not> aiEnabled g \<or> turn g \<noteq> AI then Inr g
      else if currentToken \<noteq> localToken then Inr g
      else if moveCount g \<noteq> scheduledMoveCount then Inr g
      else (case aiMoves can g of
          Inl e \<Rightarrow> Inl e
        | Inr moves \<Rightarrow>
            if length moves = 0 then
              Inr (g\<lparr>turn := Player,
                      message := Some ''Opponent skipped (no valid moves).''\<rparr>)
            else
              let pick = moves ! (r mod length moves)
              in placeCard validate now (mvActor pick) (mvTarget pick) (mvCardId pick)
                   (mvPileIndex pick) (mvTvi pick) g))"

section \<open>The invariant checker\<close>

text \<open>
  The messages that \<open>runInvariants\<close> pushes are template strings; each constructor
  stands for one template and carries the values the template interpolates.
\<close>

datatype invariantError =
  TurnAlternationViolated nat nat side
| TurnStateMismatch side side side
| InvalidJackPlay nat
| InvalidOpponentTargetPlay nat rank
| DeckLengthNegative int

record report =
  errors :: "invariantError list"
  checked :: nat
  reportMoveCount :: nat

text \<open>
  The four loops and checks, each returning the errors it pushes and how often it
  increments \<open>checked\<close>. Every loop stops at its first error (\<open>break\<close>). The first
  argument of a loop is the index \<open>i\<close> of the entry at the head of the list (of the
  second entry, \<open>curr\<close> of the source, in the alternation loop).
\<close>

fun alternationCheck :: "nat \<Rightarrow> moveEntry list \<Rightarrow> invariantError list \<times> nat" where
  "alternationCheck i (prevE # currE # rest) =
     (if actor prevE = actor currE
      then ([TurnAlternationViolated (i - 1) i (actor prevE)], 1)
      else (case alternationCheck (Suc i) (currE # rest) of (es, n) \<Rightarrow> (es, Suc n)))"
| "alternationCheck i log = ([], 0)"

definition turnCheck :: "game \<Rightarrow> invariantError list \<times> nat" where
  "turnCheck g =
     (if \<not> gameOver g \<and> length (moveLog g) > 0 then
        let lastE = last (moveLog g);
            expectedTurn = (if actor lastE = Player then AI else Player)
        in (if turn g \<noteq> expectedTurn
            then [TurnStateMismatch expectedTurn (actor lastE) (turn g)] else [], 1)
      else ([], 0))"

fun jackCheck :: "nat \<Rightarrow> moveEntry list \<Rightarrow> invariantError list \<times> nat" where
  "jackCheck i [] = ([], 0)"
| "jackCheck i (m # rest) =
     (if cardRank m = Jack \<and> pileBeforeSize m = Some 0 then ([InvalidJackPlay i], 1)
      else jackCheck (Suc i) rest)"

fun opponentCheck :: "nat \<Rightarrow> moveEntry list \<Rightarrow> invariantError list \<times> nat" where
  "opponentCheck i [] = ([], 0)"
| "opponentCheck i (m # rest) =
     (if actor m \<noteq> target m then
        (if cardRank m \<notin> set [Jack, Queen, King]
         then ([InvalidOpponentTargetPlay i (cardRank m)], 1)
         else (case opponentCheck (Suc i) rest of (es, n) \<Rightarrow> (es, Suc n)))
      else opponentCheck (Suc i) rest)"

definition deckCheck :: "game \<Rightarrow> invariantError list \<times> nat" where
  "deckCheck g =
     (if int (length (deck g)) < 0 then [DeckLengthNegative (int (length (deck g)))] else [],
      1)"

definition runInvariants :: "game \<Rightarrow> report" where
  "runInvariants g =
     (let log = moveLog g;
          (e1, c1) = alternationCheck 1 log;
          (e2, c2) = turnCheck g;
          (e3, c3) = jackCheck 0 log;
          (e4, c4) = opponentCheck 0 log;
          (e5, c5) = deckCheck g
      in \<lparr>errors = e1 @ e2 @ e3 @ e4 @ e5,
          checked = c1 + c2 + c3 + c4 + c5,
          reportMoveCount = length log\<rparr>)"

section \<open>Example states\<close>

text \<open>
  Concrete cards and states on which the theorems below are exercised. \<open>mkCard\<close> builds
  a fresh card, with the colour of its suit and not removed.
\<close>

definition mkCard :: "string \<Rightarrow> suit \<Rightarrow> rank \<Rightarrow> card" where
  "mkCard i s r =
     \<lparr>cardId = i, suit = s, rank = r,
      color = (if s = Hearts \<or> s = Diamonds then Red else Black), removed = False\<rparr>"

definition logEntry :: "side \<Rightarrow> side \<Rightarrow> rank \<Rightarrow> nat \<Rightarrow> nat option \<Rightarrow> moveEntry" where
  "logEntry a t r i tvi =
     \<lparr>actor = a, target = t, cardRank = r, pileIndex = i, targetVisibleIndex = tvi,
      aiEnabledAtMove = True, prevTurn = a, nextTurn = opponent a, time = 0,
      pileBeforeSize = None\<rparr>"

text \<open>
  A game after two moves: the player has a 5 on the first pile, the AI a 9, and it is
  the player's turn.
\<close>

definition midGame :: game where
  "midGame =
     \<lparr>deck = [mkCard ''7C'' Clubs Seven, mkCard ''2D'' Diamonds Two],
      players =
        \<lparr>player =
           \<lparr>hand = [mkCard ''QD'' Diamonds Queen, mkCard ''JC'' Clubs Jack,
                    mkCard ''KS'' Spades King, mkCard ''3S'' Spades Three],
            piles = [\<lparr>cards = [mkCard ''5H'' Hearts Five]\<rparr>, \<lparr>cards = []\<rparr>, \<lparr>cards = []\<rparr>]\<rparr>,
         ai =
           \<lparr>hand = [mkCard ''KH'' Hearts King, mkCard ''4C'' Clubs Four],
            piles = [\<lparr>cards = [mkCard ''9S'' Spades Nine]\<rparr>, \<lparr>cards = []\<rparr>, \<lparr>cards = []\<rparr>]\<rparr>\<rparr>,
      turn = Player, aiEnabled = True, gameOver = False, winner = None, message = None,
      moveCount = 2,
      moveLog = [logEntry Player Player Five 0 None, logEntry AI AI Nine 0 None]\<rparr>"

text \<open>
  A game after one move, a Queen on the player's first pile: the AI holds Kings only,
  and no pile has a live numeric/Ace card for them.
\<close>

definition stuckGame :: game where
  "stuckGame =
     \<lparr>deck = [mkCard ''7C'' Clubs Seven],
      players =
        \<lparr>player =
           \<lparr>hand = [mkCard ''3S'' Spades Three],
            piles = [\<lparr>cards = [mkCard ''QD'' Diamonds Queen]\<rparr>, \<lparr>cards = []\<rparr>, \<lparr>cards = []\<rparr>]\<rparr>,
         ai =
           \<lparr>hand = [mkCard ''KH'' Hearts King, mkCard ''KC'' Clubs King],
            piles = [\<lparr>cards = []\<rparr>, \<lparr>cards = []\<rparr>, \<lparr>cards = []\<rparr>]\<rparr>\<rparr>,
      turn = AI, aiEnabled = True, gameOver = False, winner = None, message = None,
      moveCount = 1,
      moveLog = [logEntry Player Player Queen 0 None]\<rparr>"

text \<open>Totals that qualify for the win, and totals that do not.\<close>

definition winTotals :: totals where
  "winTotals = \<lparr>perPile = [21, 22, 26], total = 69\<rparr>"

definition lowTotals :: totals where
  "lowTotals = \<lparr>perPile = [5, 0, 0], total = 5\<rparr>"

text \<open>\<open>midGame\<close> after the end-condition effect has declared the player the winner.\<close>

definition wonGame :: game where
  "wonGame = midGame\<lparr>gameOver := True, winner := Some PlayerWins\<rparr>"

text \<open>
  A validator that lets every candidate through. With it in place of the real one,
  \<open>placeCard\<close> shows what its own checks allow.
\<close>

definition acceptAll :: "card \<Rightarrow> card list \<Rightarrow> side \<Rightarrow> side \<Rightarrow> validation" where
  "acceptAll c pileRawCards actorSide targetSide = accept"

text \<open>A game before the first move, the player holding a Jack.\<close>

definition openingGame :: game where
  "openingGame =
     \<lparr>deck = [mkCard ''7C'' Clubs Seven],
      players =
        \<lparr>player =
           \<lparr>hand = [mkCard ''JC'' Clubs Jack, mkCard ''3S'' Spades Three],
            piles = [\<lparr>cards = []\<rparr>, \<lparr>cards = []\<rparr>, \<lparr>cards = []\<rparr>]\<rparr>,
         ai =
           \<lparr>hand = [mkCard ''KH'' Hearts King],
            piles = [\<lparr>cards = []\<rparr>, \<lparr>cards = []\<rparr>, \<lparr>cards = []\<rparr>]\<rparr>\<rparr>,
      turn = Player, aiEnabled = True, gameOver = False, winner = None, message = None,
      moveCount = 0, moveLog = []\<rparr>"

text \<open>
  \<open>openingGame\<close> after that Jack has been put on the player's empty second pile, with
  the log entry as \<open>placeCard\<close> writes it.
\<close>

definition jackLoggedGame :: game where
  "jackLoggedGame =
     \<lparr>deck = [],
      players =
        \<lparr>player =
           \<lparr>hand = [mkCard ''3S'' Spades Three, mkCard ''7C'' Clubs Seven],
            piles = [\<lparr>cards = []\<rparr>, \<lparr>cards = [mkCard ''JC'' Clubs Jack]\<rparr>, \<lparr>cards = []\<rparr>]\<rparr>,
         ai =
           \<lparr>hand = [mkCard ''KH'' Hearts King],
            piles = [\<lparr>cards = []\<rparr>, \<lparr>cards = []\<rparr>, \<lparr>cards = []\<rparr>]\<rparr>\<rparr>,
      turn = AI, aiEnabled = True, gameOver = False, winner = None, message = None,
      moveCount = 1,
      moveLog =
        [\<lparr>actor = Player, target = Player, cardRank = Jack, pileIndex = 1,
          targetVisibleIndex = None, aiEnabledAtMove = True, prevTurn = Player,
          nextTurn = AI, time = 0, pileBeforeSize = None\<rparr>]\<rparr>"

text \<open>
  A pile with a doubled-twice 5, a removed 3 that has a King of its own, a Queen and
  a 7.
\<close>

definition kingPile :: "card list" where
  "kingPile =
     [mkCard ''5H'' Hearts Five, mkCard ''KS'' Spades King, mkCard ''KD'' Diamonds King,
      (mkCard ''3S'' Spades Three)\<lparr>removed := True\<rparr>, mkCard ''JC'' Clubs Jack,
      mkCard ''KC'' Clubs King, mkCard ''QD'' Diamonds Queen, mkCard ''7C'' Clubs Seven]"

text \<open>A pile with an Ace and a 5, and the same pile after a Queen was put on the 5.\<close>

definition risingPile :: "card list" where
  "risingPile = [mkCard ''AS'' Spades Ace, mkCard ''5H'' Hearts Five]"

definition flippedPile :: "card list" where
  "flippedPile = risingPile @ [mkCard ''QD'' Diamonds Queen]"

text \<open>The same Ace and 5 with the Queen put on the Ace, and with the Queen played
  first, on the empty pile.\<close>

definition queenOnAcePile :: "card list" where
  "queenOnAcePile =
     [mkCard ''AS'' Spades Ace, mkCard ''QD'' Diamonds Queen, mkCard ''5H'' Hearts Five]"


text \<open>\<open>midGame\<close> with the turn at the AI, and a drag payload of the player's 3.\<close>

definition aiTurnGame :: game where
  "aiTurnGame = midGame\<lparr>turn := AI\<rparr>"

definition playerThree :: payload where
  "playerThree = \<lparr>source = ''hand'', owner = ''player'', payloadCardId = ''3S''\<rparr>"

section \<open>Facts about the helpers\<close>

text \<open>The definitions that evaluating the example states unfolds.\<close>

lemmas example_defs =
  midGame_def wonGame_def stuckGame_def mkCard_def logEntry_def handIndexOf_def playerOf_def
  at_def opponent_def isFaceCard_def isNumericOrAce_def

lemma findIndex_Some:
  "findIndex P xs = Some i \<Longrightarrow> i < length xs \<and> P (xs ! i) \<and> (\<forall>j<i. \<not> P (xs ! j))"
proof (induction xs arbitrary: i)
  case Nil
  then show ?case by simp
next
  case (Cons x xs)
  show ?case
  proof (cases "P x")
    case True
    with Cons.prems show ?thesis by simp
  next
    case False
    with Cons.prems obtain k where k: "findIndex P xs = Some k" "i = Suc k" by auto
    from Cons.IH[OF k(1)] False k(2) show ?thesis
      by (auto simp: less_Suc_eq_0_disj)
  qed
qed

lemma handIndexOf_Some:
  "handIndexOf cid h = Some i \<Longrightarrow> i < length h \<and> cardId (h ! i) = cid"
  unfolding handIndexOf_def by (drule findIndex_Some) simp

lemma length_mapIdx: "length (mapIdx f xs) = length xs"
  by (simp add: mapIdx_def)

lemma nth_mapIdx: "i < length xs \<Longrightarrow> mapIdx f xs ! i = f (xs ! i) i"
  by (simp add: mapIdx_def nth_enumerate_eq)

lemma mapIdx_update:
  "k < length xs \<Longrightarrow> mapIdx (\<lambda>p idx. if idx = k then f p else p) xs = xs[k := f (xs ! k)]"
  by (rule nth_equalityI) (auto simp: length_mapIdx nth_mapIdx nth_list_update)

lemma at_Some: "i < length xs \<Longrightarrow> at xs i = Some (xs ! i)"
  by (simp add: at_def)

lemma face_not_numeric: "isFaceCard c \<longleftrightarrow> \<not> isNumericOrAce c"
  by (simp add: isNumericOrAce_def)

section \<open>The paths through placeCard\<close>

lemma placeCard_gameOver:
  "gameOver g \<Longrightarrow> placeCard validate now a t cid pidx tvi g = Inr g"
  by (simp add: placeCard_def)

lemma placeCard_not_held:
  "\<not> gameOver g \<Longrightarrow> handIndexOf cid (hand (playerOf a (players g))) = None
   \<Longrightarrow> placeCard validate now a t cid pidx tvi g = Inr g"
  by (simp add: placeCard_def)

lemma placeCard_no_pile:
  "\<not> gameOver g \<Longrightarrow> handIndexOf cid (hand (playerOf a (players g))) = Some hi
   \<Longrightarrow> at (piles (playerOf t (players g))) pidx = None
   \<Longrightarrow> placeCard validate now a t cid pidx tvi g = Inl TypeError"
  by (simp add: placeCard_def)

lemma placeCard_invalid:
  "\<not> gameOver g \<Longrightarrow> handIndexOf cid (hand (playerOf a (players g))) = Some hi
   \<Longrightarrow> at (piles (playerOf t (players g))) pidx = Some tp
   \<Longrightarrow> \<not> ok (validate (hand (playerOf a (players g)) ! hi) (cards tp) a t)
   \<Longrightarrow> placeCard validate now a t cid pidx tvi g =
        Inr (g\<lparr>message := Some (reasonOrDefault
               (validate (hand (playerOf a (players g)) ! hi) (cards tp) a t))\<rparr>)"
  by (simp add: placeCard_def)

lemma placeCard_target_rejected:
  "\<not> gameOver g \<Longrightarrow> handIndexOf cid (hand (playerOf a (players g))) = Some hi
   \<Longrightarrow> at (piles (playerOf t (players g))) pidx = Some tp
   \<Longrightarrow> ok (validate (hand (playerOf a (players g)) ! hi) (cards tp) a t)
   \<Longrightarrow> resolveNewRaw (hand (playerOf a (players g)) ! hi) (cards tp) tvi = Inl msg
   \<Longrightarrow> placeCard validate now a t cid pidx tvi g = Inr (g\<lparr>message := Some msg\<rparr>)"
  by (simp add: placeCard_def)

lemma placeCard_commit:
  "\<not> gameOver g \<Longrightarrow> handIndexOf cid (hand (playerOf a (players g))) = Some hi
   \<Longrightarrow> at (piles (playerOf t (players g))) pidx = Some tp
   \<Longrightarrow> ok (validate (hand (playerOf a (players g)) ! hi) (cards tp) a t)
   \<Longrightarrow> resolveNewRaw (hand (playerOf a (players g)) ! hi) (cards tp) tvi = Inr newRaw
   \<Longrightarrow> \<exists>g'. placeCard validate now a t cid pidx tvi g = Inr g' \<and>
         hand (playerOf a (players g')) =
           take hi (hand (playerOf a (players g))) @
           drop (Suc hi) (hand (playerOf a (players g))) @ take 1 (deck g) \<and>
         deck g' = drop 1 (deck g) \<and>
         piles (playerOf t (players g')) =
           (piles (playerOf t (players g)))[pidx := tp\<lparr>cards := newRaw\<rparr>] \<and>
         (a \<noteq> t \<longrightarrow> piles (playerOf a (players g')) = piles (playerOf a (players g)) \<and>
                     hand (playerOf t (players g')) = hand (playerOf t (players g))) \<and>
         turn g' = opponent a \<and>
         moveCount g' = moveCount g + 1 \<and>
         moveLog g' = moveLog g @
           [\<lparr>actor = a, target = t, cardRank = rank (hand (playerOf a (players g)) ! hi),
             pileIndex = pidx, targetVisibleIndex = tvi, aiEnabledAtMove = aiEnabled g,
             prevTurn = turn g, nextTurn = opponent a, time = now,
             pileBeforeSize = None\<rparr>] \<and>
         message g' = None \<and> gameOver g' = gameOver g \<and> winner g' = winner g \<and>
         aiEnabled g' = aiEnabled g"
  apply (cases "deck g"; cases a; cases t)
  apply (simp_all add: placeCard_def Let_def at_def mapIdx_update playerOf_def setPlayer_def
      opponent_def spliceRemove_def split: if_splits)
  done

text \<open>What \<open>resolveNewRaw\<close> returns when the checks of \<open>placeCard\<close> pass.\<close>

lemma resolveNewRaw_numeric:
  "isNumericOrAce c \<Longrightarrow> resolveNewRaw c pc tvi = Inr (pc @ [c])"
  by (simp add: resolveNewRaw_def)

lemma resolveNewRaw_face_empty:
  "\<not> isNumericOrAce c \<Longrightarrow> rank c \<noteq> King \<Longrightarrow> resolveNewRaw c [] None = Inr [c]"
  by (simp add: resolveNewRaw_def)

lemma resolveNewRaw_face_no_index:
  "\<not> isNumericOrAce c \<Longrightarrow> pc \<noteq> [] \<Longrightarrow>
   resolveNewRaw c pc None = Inl ''Choose a specific card to place J/Q/K onto.''"
  by (simp add: resolveNewRaw_def)

lemma resolveNewRaw_jack:
  "rank c = Jack \<Longrightarrow> k < length pc \<Longrightarrow>
   resolveNewRaw c pc (Some k) =
     Inr (take k pc @ [(pc ! k)\<lparr>removed := True\<rparr>, c] @ drop (Suc k) pc)"
  by (simp add: resolveNewRaw_def isNumericOrAce_def isFaceCard_def at_def spliceInsert_def
      Let_def list_update_append take_Suc_conv_app_nth)

lemma resolveNewRaw_queen:
  "rank c = Queen \<Longrightarrow>
   resolveNewRaw c pc (Some k) = Inr (take (Suc k) pc @ [c] @ drop (Suc k) pc)"
  by (simp add: resolveNewRaw_def isNumericOrAce_def isFaceCard_def spliceInsert_def Let_def)

lemma resolveNewRaw_king:
  "rank c = King \<Longrightarrow> k < length pc \<Longrightarrow> isNumericOrAce (pc ! k) \<Longrightarrow> \<not> removed (pc ! k) \<Longrightarrow>
   resolveNewRaw c pc (Some k) = Inr (take (Suc k) pc @ [c] @ drop (Suc k) pc)"
  by (simp add: resolveNewRaw_def isNumericOrAce_def isFaceCard_def at_def spliceInsert_def
      Let_def)

lemma resolveNewRaw_king_bad_target:
  "rank c = King \<Longrightarrow> k < length pc \<Longrightarrow> \<not> (isNumericOrAce (pc ! k) \<and> \<not> removed (pc ! k)) \<Longrightarrow>
   resolveNewRaw c pc (Some k) =
     Inl ''King must be placed on a number or Ace that is not removed.''"
  by (auto simp add: resolveNewRaw_def isNumericOrAce_def isFaceCard_def at_def Let_def)

section \<open>The end condition and the terminal state\<close>

text \<open>
  C3. On a state that is not over, the end-condition effect sets \<open>gameOver\<close> exactly
  when every pile total of at least one side lies in [21,26] (for three piles: all
  three of them). If exactly one side qualifies it is the winner; if both qualify the
  strictly higher grand total wins and equal grand totals give a tie; if neither
  qualifies the state is unchanged. Once \<open>gameOver\<close> is set, the effect leaves the
  state alone and every \<open>placeCard\<close> call returns the state unchanged.
\<close>

theorem game_over_transition:
  assumes "perPile pt = [p1, p2, p3]" and "perPile ait = [a1, a2, a3]"
  shows
    "(allInRange pt \<longleftrightarrow> (21 \<le> p1 \<and> p1 \<le> 26) \<and> (21 \<le> p2 \<and> p2 \<le> 26) \<and> (21 \<le> p3 \<and> p3 \<le> 26)) \<and>
     (allInRange ait \<longleftrightarrow> (21 \<le> a1 \<and> a1 \<le> 26) \<and> (21 \<le> a2 \<and> a2 \<le> 26) \<and> (21 \<le> a3 \<and> a3 \<le> 26)) \<and>
     (\<not> gameOver g \<longrightarrow>
        (gameOver (endConditionEffect pt ait g) \<longleftrightarrow> allInRange pt \<or> allInRange ait) \<and>
        (allInRange pt \<and> \<not> allInRange ait \<longrightarrow>
           endConditionEffect pt ait g = g\<lparr>gameOver := True, winner := Some PlayerWins\<rparr>) \<and>
        (allInRange ait \<and> \<not> allInRange pt \<longrightarrow>
           endConditionEffect pt ait g = g\<lparr>gameOver := True, winner := Some AIWins\<rparr>) \<and>
        (allInRange pt \<and> allInRange ait \<and> total pt > total ait \<longrightarrow>
           endConditionEffect pt ait g = g\<lparr>gameOver := True, winner := Some PlayerWins\<rparr>) \<and>
        (allInRange pt \<and> allInRange ait \<and> total ait > total pt \<longrightarrow>
           endConditionEffect pt ait g = g\<lparr>gameOver := True, winner := Some AIWins\<rparr>) \<and>
        (allInRange pt \<and> allInRange ait \<and> total pt = total ait \<longrightarrow>
           endConditionEffect pt ait g = g\<lparr>gameOver := True, winner := Some Tie\<rparr>) \<and>
        (\<not> allInRange pt \<and> \<not> allInRange ait \<longrightarrow> endConditionEffect pt ait g = g)) \<and>
     (gameOver g \<longrightarrow>
        endConditionEffect pt ait g = g \<and>
        placeCard validate now a t cid pidx tvi g = Inr g)"
proof -
  have r1: "allInRange pt \<longleftrightarrow> (21 \<le> p1 \<and> p1 \<le> 26) \<and> (21 \<le> p2 \<and> p2 \<le> 26) \<and> (21 \<le> p3 \<and> p3 \<le> 26)"
    using assms(1) by (simp add: allInRange_def isInRange_def)
  have r2: "allInRange ait \<longleftrightarrow> (21 \<le> a1 \<and> a1 \<le> 26) \<and> (21 \<le> a2 \<and> a2 \<le> 26) \<and> (21 \<le> a3 \<and> a3 \<le> 26)"
    using assms(2) by (simp add: allInRange_def isInRange_def)
  have live: "\<not> gameOver g \<longrightarrow>
        (gameOver (endConditionEffect pt ait g) \<longleftrightarrow> allInRange pt \<or> allInRange ait) \<and>
        (allInRange pt \<and> \<not> allInRange ait \<longrightarrow>
           endConditionEffect pt ait g = g\<lparr>gameOver := True, winner := Some PlayerWins\<rparr>) \<and>
        (allInRange ait \<and> \<not> allInRange pt \<longrightarrow>
           endConditionEffect pt ait g = g\<lparr>gameOver := True, winner := Some AIWins\<rparr>) \<and>
        (allInRange pt \<and> allInRange ait \<and> total pt > total ait \<longrightarrow>
           endConditionEffect pt ait g = g\<lparr>gameOver := True, winner := Some PlayerWins\<rparr>) \<and>
        (allInRange pt \<and> allInRange ait \<and> total ait > total pt \<longrightarrow>
           endConditionEffect pt ait g = g\<lparr>gameOver := True, winner := Some AIWins\<rparr>) \<and>
        (allInRange pt \<and> allInRange ait \<and> total pt = total ait \<longrightarrow>
           endConditionEffect pt ait g = g\<lparr>gameOver := True, winner := Some Tie\<rparr>) \<and>
        (\<not> allInRange pt \<and> \<not> allInRange ait \<longrightarrow> endConditionEffect pt ait g = g)"
    by (simp add: endConditionEffect_def decideWinnerIfAny_def Let_def)
  have over: "gameOver g \<longrightarrow>
        endConditionEffect pt ait g = g \<and>
        placeCard validate now a t cid pidx tvi g = Inr g"
    by (simp add: endConditionEffect_def placeCard_gameOver)
  from r1 r2 live over show ?thesis by blast
qed

theorem game_over_transition_witness:
  "perPile winTotals = [21, 22, 26] \<and> perPile lowTotals = [5, 0, 0] \<and>
   \<not> gameOver midGame \<and> gameOver wonGame \<and>
   allInRange winTotals \<and> \<not> allInRange lowTotals \<and>
   endConditionEffect winTotals lowTotals midGame = wonGame \<and>
   endConditionEffect lowTotals lowTotals wonGame = wonGame \<and>
   placeCard canPlaceCardOnTargetWithReason 0 Player Player ''3S'' 1 None wonGame = Inr wonGame"
proof -
  have p: "perPile winTotals = [21, 22, 26]" and q: "perPile lowTotals = [5, 0, 0]"
    by (simp_all add: winTotals_def lowTotals_def)
  have lv: "\<not> gameOver midGame" and ov: "gameOver wonGame"
    by (simp_all add: midGame_def wonGame_def)
  from game_over_transition[OF p q, of midGame] lv
  have w: "allInRange winTotals" "\<not> allInRange lowTotals"
    "endConditionEffect winTotals lowTotals midGame = wonGame"
    by (simp_all add: wonGame_def)
  from game_over_transition[OF q q, of wonGame canPlaceCardOnTargetWithReason 0 Player Player "''3S''" 1 None] ov
  have "endConditionEffect lowTotals lowTotals wonGame = wonGame"
    "placeCard canPlaceCardOnTargetWithReason 0 Player Player ''3S'' 1 None wonGame = Inr wonGame"
    by simp_all
  with p q lv ov w show ?thesis by simp
qed

section \<open>Rejected moves\<close>

text \<open>
  C10. A face card (J, Q or K) played without a target index onto a non-empty pile is
  never committed: the call returns the prior state with at most the message field
  changed, and when the game is not over and the validator accepts the card the message
  is the request to choose a specific card.
\<close>

theorem face_card_without_index_rejected:
  assumes "handIndexOf cid (hand (playerOf a (players g))) = Some hi"
    and "isFaceCard (hand (playerOf a (players g)) ! hi)"
    and "pidx < length (piles (playerOf t (players g)))"
    and "cards (piles (playerOf t (players g)) ! pidx) \<noteq> []"
  shows "(\<exists>m. placeCard validate now a t cid pidx None g = Inr (g\<lparr>message := m\<rparr>)) \<and>
         (\<not> gameOver g \<and>
          ok (validate (hand (playerOf a (players g)) ! hi)
                (cards (piles (playerOf t (players g)) ! pidx)) a t) \<longrightarrow>
            placeCard validate now a t cid pidx None g =
              Inr (g\<lparr>message := Some ''Choose a specific card to place J/Q/K onto.''\<rparr>))"
proof -
  let ?c = "hand (playerOf a (players g)) ! hi"
  let ?tp = "piles (playerOf t (players g)) ! pidx"
  have tp: "at (piles (playerOf t (players g))) pidx = Some ?tp"
    using assms(3) by (rule at_Some)
  have res: "resolveNewRaw ?c (cards ?tp) None =
      Inl ''Choose a specific card to place J/Q/K onto.''"
    using assms(2,4) by (simp add: resolveNewRaw_face_no_index face_not_numeric)
  have chosen: "placeCard validate now a t cid pidx None g =
      Inr (g\<lparr>message := Some ''Choose a specific card to place J/Q/K onto.''\<rparr>)"
    if "\<not> gameOver g" and "ok (validate ?c (cards ?tp) a t)"
    using placeCard_target_rejected[where validate=validate, OF that(1) assms(1) tp that(2) res] .
  have "\<exists>m. placeCard validate now a t cid pidx None g = Inr (g\<lparr>message := m\<rparr>)"
  proof (cases "gameOver g")
    case True
    then have "placeCard validate now a t cid pidx None g = Inr (g\<lparr>message := message g\<rparr>)"
      by (simp add: placeCard_gameOver)
    then show ?thesis ..
  next
    case False
    show ?thesis
    proof (cases "ok (validate ?c (cards ?tp) a t)")
      case True
      from chosen[OF False True] show ?thesis ..
    next
      case nok: False
      from placeCard_invalid[where validate=validate, OF False assms(1) tp nok] show ?thesis ..
    qed
  qed
  with chosen show ?thesis by blast
qed

theorem face_card_without_index_rejected_witness:
  "handIndexOf ''QD'' (hand (playerOf Player (players midGame))) = Some 0 \<and>
   isFaceCard (hand (playerOf Player (players midGame)) ! 0) \<and>
   cards (piles (playerOf Player (players midGame)) ! 0) \<noteq> [] \<and>
   ok (canPlaceCardOnTargetWithReason (hand (playerOf Player (players midGame)) ! 0)
         (cards (piles (playerOf Player (players midGame)) ! 0)) Player Player) \<and>
   placeCard canPlaceCardOnTargetWithReason 0 Player Player ''QD'' 0 None midGame =
     Inr (midGame\<lparr>message := Some ''Choose a specific card to place J/Q/K onto.''\<rparr>)"
proof -
  have h1: "handIndexOf ''QD'' (hand (playerOf Player (players midGame))) = Some 0"
    by (simp add: example_defs)
  have h2: "isFaceCard (hand (playerOf Player (players midGame)) ! 0)"
    by (simp add: example_defs)
  have h3: "0 < length (piles (playerOf Player (players midGame)))"
    by (simp add: example_defs)
  have h4: "cards (piles (playerOf Player (players midGame)) ! 0) \<noteq> []"
    by (simp add: example_defs)
  have h5: "\<not> gameOver midGame"
    by (simp add: example_defs)
  have h6: "ok (canPlaceCardOnTargetWithReason (hand (playerOf Player (players midGame)) ! 0)
         (cards (piles (playerOf Player (players midGame)) ! 0)) Player Player)"
    by (simp add: example_defs canPlaceCardOnTargetWithReason_def accept_def)
  from face_card_without_index_rejected[where validate=canPlaceCardOnTargetWithReason
      and now=0, OF h1 h2 h3 h4] h5 h6
  have "placeCard canPlaceCardOnTargetWithReason 0 Player Player ''QD'' 0 None midGame =
     Inr (midGame\<lparr>message := Some ''Choose a specific card to place J/Q/K onto.''\<rparr>)"
    by blast
  with h1 h2 h4 h6 show ?thesis by blast
qed

text \<open>
  C4 as stated fails where the claim promises a rejection message: a call on a
  finished game, and a call naming a card the actor does not hold, return the prior
  state itself, whose message is still absent.
\<close>

theorem rejection_without_message:
  "gameOver wonGame \<and> message wonGame = None \<and>
   placeCard canPlaceCardOnTargetWithReason 0 Player Player ''3S'' 1 None wonGame =
     Inr wonGame \<and>
   \<not> gameOver midGame \<and> message midGame = None \<and>
   handIndexOf ''AS'' (hand (playerOf Player (players midGame))) = None \<and>
   placeCard canPlaceCardOnTargetWithReason 0 Player Player ''AS'' 1 None midGame =
     Inr midGame"
  by (simp add: placeCard_def example_defs)

text \<open>
  C4, as amended. A call that returns without appending a log entry has rejected the
  move. Then hands, piles, deck, turn, move count, move log, \<open>gameOver\<close>, \<open>winner\<close> and
  \<open>aiEnabled\<close> are those of the prior state. When the game is over or the actor does not
  hold the card, the prior state is returned as it is, with no message attached; in the
  other rejections (the validator or a face-card target check fails) the result is the
  prior state with the message field set to the rejection message.
\<close>

theorem rejected_move_keeps_state:
  assumes "placeCard validate now a t cid pidx tvi g = Inr g'"
    and "moveLog g' = moveLog g"
  shows "players g' = players g \<and> deck g' = deck g \<and> turn g' = turn g \<and>
         moveCount g' = moveCount g \<and> gameOver g' = gameOver g \<and>
         winner g' = winner g \<and> aiEnabled g' = aiEnabled g \<and>
         (gameOver g \<or> handIndexOf cid (hand (playerOf a (players g))) = None
            \<longrightarrow> g' = g) \<and>
         (\<not> gameOver g \<and> handIndexOf cid (hand (playerOf a (players g))) \<noteq> None
            \<longrightarrow> (\<exists>m. g' = g\<lparr>message := Some m\<rparr>))"
proof (cases "gameOver g")
  case True
  with assms(1) have "g' = g" by (simp add: placeCard_gameOver)
  with True show ?thesis by simp
next
  case False
  show ?thesis
  proof (cases "handIndexOf cid (hand (playerOf a (players g)))")
    case None
    with False assms(1) have "g' = g" by (simp add: placeCard_not_held)
    with None show ?thesis by simp
  next
    case (Some hi)
    let ?c = "hand (playerOf a (players g)) ! hi"
    have "\<exists>m. g' = g\<lparr>message := Some m\<rparr>"
    proof (cases "at (piles (playerOf t (players g))) pidx")
      case None
      from placeCard_no_pile[OF False Some None] assms(1) show ?thesis by simp
    next
      case tp: (Some tp)
      show ?thesis
      proof (cases "ok (validate ?c (cards tp) a t)")
        case nok: False
        from placeCard_invalid[where validate=validate, OF False Some tp nok] assms(1) show ?thesis by auto
      next
        case True
        show ?thesis
        proof (cases "resolveNewRaw ?c (cards tp) tvi")
          case (Inl msg)
          from placeCard_target_rejected[where validate=validate, OF False Some tp True Inl] assms(1)
          show ?thesis by auto
        next
          case (Inr newRaw)
          from placeCard_commit[where validate=validate and now=now, OF False Some tp True Inr] assms(1)
          have "length (moveLog g') = Suc (length (moveLog g))" by auto
          with assms(2) show ?thesis by simp
        qed
      qed
    qed
    then obtain m where "g' = g\<lparr>message := Some m\<rparr>" ..
    with False Some show ?thesis by auto
  qed
qed

theorem rejected_move_keeps_state_witness:
  "placeCard canPlaceCardOnTargetWithReason 0 Player Player ''QD'' 0 None midGame =
     Inr (midGame\<lparr>message := Some ''Choose a specific card to place J/Q/K onto.''\<rparr>) \<and>
   moveLog (midGame\<lparr>message := Some ''Choose a specific card to place J/Q/K onto.''\<rparr>) =
     moveLog midGame \<and>
   players (midGame\<lparr>message := Some ''Choose a specific card to place J/Q/K onto.''\<rparr>) =
     players midGame \<and>
   deck (midGame\<lparr>message := Some ''Choose a specific card to place J/Q/K onto.''\<rparr>) =
     deck midGame \<and>
   turn (midGame\<lparr>message := Some ''Choose a specific card to place J/Q/K onto.''\<rparr>) =
     turn midGame \<and>
   moveCount (midGame\<lparr>message := Some ''Choose a specific card to place J/Q/K onto.''\<rparr>) =
     moveCount midGame"
proof -
  let ?g' = "midGame\<lparr>message := Some ''Choose a specific card to place J/Q/K onto.''\<rparr>"
  have run: "placeCard canPlaceCardOnTargetWithReason 0 Player Player ''QD'' 0 None midGame =
     Inr ?g'"
    by (simp add: placeCard_def example_defs canPlaceCardOnTargetWithReason_def accept_def
        resolveNewRaw_def)
  have same: "moveLog ?g' = moveLog midGame" by simp
  from rejected_move_keeps_state[OF run same] run same show ?thesis by blast
qed

section \<open>Committed moves\<close>

text \<open>
  C1 as stated fails: the validator's verdict is not the last check of \<open>placeCard\<close>.
  On \<open>midGame\<close> the player holds the Queen and the validator accepts it on the player's
  own first pile, but the call gives no target index and the pile is not empty, so
  \<open>placeCard\<close> returns the prior state with a message: nothing is played, drawn or
  logged, and the turn does not change.
\<close>

theorem validator_accepts_placeCard_rejects:
  "\<not> gameOver midGame \<and>
   handIndexOf ''QD'' (hand (playerOf Player (players midGame))) = Some 0 \<and>
   ok (canPlaceCardOnTargetWithReason (hand (playerOf Player (players midGame)) ! 0)
         (cards (piles (playerOf Player (players midGame)) ! 0)) Player Player) \<and>
   placeCard canPlaceCardOnTargetWithReason 0 Player Player ''QD'' 0 None midGame =
     Inr (midGame\<lparr>message := Some ''Choose a specific card to place J/Q/K onto.''\<rparr>) \<and>
   turn (midGame\<lparr>message := Some ''Choose a specific card to place J/Q/K onto.''\<rparr>) = Player \<and>
   moveCount (midGame\<lparr>message := Some ''Choose a specific card to place J/Q/K onto.''\<rparr>) =
     moveCount midGame"
  by (simp add: placeCard_def example_defs canPlaceCardOnTargetWithReason_def accept_def
      resolveNewRaw_def)

text \<open>
  C1, as amended. Let the game not be over, the actor hold the card \<open>c\<close> (at hand index
  \<open>hi\<close>), the pile index name a pile \<open>pc\<close> of the target side, the validator accept,
  and the target checks of \<open>placeCard\<close> pass: \<open>c\<close> is numeric/Ace; or \<open>c\<close> is a Jack or
  Queen played without a target index onto an empty pile; or \<open>c\<close> is a face card with a
  target index \<open>k\<close> inside the pile, which for a King names a live numeric/Ace card.
  Then \<open>placeCard\<close> returns a state in which the card is gone from the actor's hand;
  the hand has gained the front card of the deck exactly when the deck was not empty,
  and the deck has lost that card; the target pile is \<open>pc\<close> with \<open>c\<close> appended
  (numeric/Ace, or no target index) or inserted right after the targeted card (face card
  with index \<open>k\<close>), the targeted card marked removed if \<open>c\<close> is a Jack; every other pile
  is unchanged; the turn is the opponent of the actor; exactly one entry is appended to
  the move log; and the move count is one more.
\<close>

theorem placeCard_commits:
  assumes "\<not> gameOver g"
    and "handIndexOf cid (hand (playerOf a (players g))) = Some hi"
    and "pidx < length (piles (playerOf t (players g)))"
    and "c = hand (playerOf a (players g)) ! hi"
    and "pc = cards (piles (playerOf t (players g)) ! pidx)"
    and "ok (validate c pc a t)"
    and "isNumericOrAce c \<or>
         (isFaceCard c \<and> tvi = None \<and> pc = [] \<and> rank c \<noteq> King) \<or>
         (isFaceCard c \<and> (\<exists>k. tvi = Some k \<and> k < length pc \<and>
            (rank c = King \<longrightarrow> isNumericOrAce (pc ! k) \<and> \<not> removed (pc ! k))))"
  shows "\<exists>g' newRaw.
      placeCard validate now a t cid pidx tvi g = Inr g' \<and>
      newRaw =
        (if isNumericOrAce c then pc @ [c]
         else (case tvi of
             None \<Rightarrow> pc @ [c]
           | Some k \<Rightarrow>
               if rank c = Jack
               then take k pc @ [(pc ! k)\<lparr>removed := True\<rparr>, c] @ drop (Suc k) pc
               else take (Suc k) pc @ [c] @ drop (Suc k) pc)) \<and>
      hand (playerOf a (players g')) =
        take hi (hand (playerOf a (players g))) @
        drop (Suc hi) (hand (playerOf a (players g))) @ take 1 (deck g) \<and>
      deck g' = drop 1 (deck g) \<and>
      piles (playerOf t (players g')) =
        (piles (playerOf t (players g)))
          [pidx := (piles (playerOf t (players g)) ! pidx)\<lparr>cards := newRaw\<rparr>] \<and>
      (a \<noteq> t \<longrightarrow> piles (playerOf a (players g')) = piles (playerOf a (players g)) \<and>
                  hand (playerOf t (players g')) = hand (playerOf t (players g))) \<and>
      turn g' = opponent a \<and>
      (\<exists>e. moveLog g' = moveLog g @ [e] \<and> actor e = a \<and> target e = t \<and>
           cardRank e = rank c \<and> pileIndex e = pidx \<and> targetVisibleIndex e = tvi \<and>
           prevTurn e = turn g \<and> nextTurn e = opponent a) \<and>
      moveCount g' = moveCount g + 1"
proof -
  let ?tp = "piles (playerOf t (players g)) ! pidx"
  let ?newRaw = "if isNumericOrAce c then pc @ [c]
         else (case tvi of
             None \<Rightarrow> pc @ [c]
           | Some k \<Rightarrow>
               if rank c = Jack
               then take k pc @ [(pc ! k)\<lparr>removed := True\<rparr>, c] @ drop (Suc k) pc
               else take (Suc k) pc @ [c] @ drop (Suc k) pc)"
  have tp: "at (piles (playerOf t (players g))) pidx = Some ?tp"
    using assms(3) by (rule at_Some)
  have res: "resolveNewRaw c pc tvi = Inr ?newRaw"
  proof -
    consider (num) "isNumericOrAce c"
      | (empty) "isFaceCard c" "tvi = None" "pc = []" "rank c \<noteq> King"
      | (idx) k where "isFaceCard c" "tvi = Some k" "k < length pc"
          "rank c = King \<longrightarrow> isNumericOrAce (pc ! k) \<and> \<not> removed (pc ! k)"
      using assms(7) by blast
    then show ?thesis
    proof cases
      case num
      then show ?thesis by (simp add: resolveNewRaw_numeric)
    next
      case empty
      then show ?thesis by (simp add: resolveNewRaw_face_empty face_not_numeric)
    next
      case idx
      from idx(1) have nn: "\<not> isNumericOrAce c" by (simp add: face_not_numeric)
      from idx(1) consider "rank c = Jack" | "rank c = Queen" | "rank c = King"
        by (auto simp: isFaceCard_def)
      then show ?thesis
      proof cases
        case 1
        with idx nn show ?thesis by (simp add: resolveNewRaw_jack)
      next
        case 2
        with idx nn show ?thesis by (simp add: resolveNewRaw_queen)
      next
        case 3
        with idx nn show ?thesis by (simp add: resolveNewRaw_king)
      qed
    qed
  qed
  have okv: "ok (validate (hand (playerOf a (players g)) ! hi) (cards ?tp) a t)"
    using assms(4,5,6) by simp
  have res': "resolveNewRaw (hand (playerOf a (players g)) ! hi) (cards ?tp) tvi = Inr ?newRaw"
    using res assms(4,5) by simp
  from placeCard_commit[where validate=validate and now=now, OF assms(1,2) tp okv res']
  obtain g' where g': "placeCard validate now a t cid pidx tvi g = Inr g'"
    "hand (playerOf a (players g')) =
        take hi (hand (playerOf a (players g))) @
        drop (Suc hi) (hand (playerOf a (players g))) @ take 1 (deck g)"
    "deck g' = drop 1 (deck g)"
    "piles (playerOf t (players g')) =
        (piles (playerOf t (players g)))[pidx := ?tp\<lparr>cards := ?newRaw\<rparr>]"
    "a \<noteq> t \<longrightarrow> piles (playerOf a (players g')) = piles (playerOf a (players g)) \<and>
                  hand (playerOf t (players g')) = hand (playerOf t (players g))"
    "turn g' = opponent a"
    "moveCount g' = moveCount g + 1"
    "moveLog g' = moveLog g @
           [\<lparr>actor = a, target = t, cardRank = rank (hand (playerOf a (players g)) ! hi),
             pileIndex = pidx, targetVisibleIndex = tvi, aiEnabledAtMove = aiEnabled g,
             prevTurn = turn g, nextTurn = opponent a, time = now,
             pileBeforeSize = None\<rparr>]"
    by blast
  from g'(8) assms(4)
  have entry: "\<exists>e. moveLog g' = moveLog g @ [e] \<and> actor e = a \<and> target e = t \<and>
           cardRank e = rank c \<and> pileIndex e = pidx \<and> targetVisibleIndex e = tvi \<and>
           prevTurn e = turn g \<and> nextTurn e = opponent a"
    by simp
  show ?thesis
    apply (rule exI[of _ g'])
    apply (rule exI[of _ ?newRaw])
    using g'(1-7) entry apply (intro conjI)
            apply (simp_all only: refl)
    done
qed

theorem placeCard_commits_witness:
  "\<not> gameOver midGame \<and>
   handIndexOf ''JC'' (hand (playerOf Player (players midGame))) = Some 1 \<and>
   ok (canPlaceCardOnTargetWithReason (mkCard ''JC'' Clubs Jack)
         [mkCard ''5H'' Hearts Five] Player Player) \<and>
   (\<exists>g'. placeCard canPlaceCardOnTargetWithReason 7 Player Player ''JC'' 0 (Some 0) midGame =
            Inr g' \<and>
         hand (playerOf Player (players g')) =
           [mkCard ''QD'' Diamonds Queen, mkCard ''KS'' Spades King,
            mkCard ''3S'' Spades Three, mkCard ''7C'' Clubs Seven] \<and>
         deck g' = [mkCard ''2D'' Diamonds Two] \<and>
         piles (playerOf Player (players g')) =
           [\<lparr>cards = [(mkCard ''5H'' Hearts Five)\<lparr>removed := True\<rparr>, mkCard ''JC'' Clubs Jack]\<rparr>,
            \<lparr>cards = []\<rparr>, \<lparr>cards = []\<rparr>] \<and>
         turn g' = AI \<and> length (moveLog g') = 3 \<and> moveCount g' = 3)"
proof -
  have h1: "\<not> gameOver midGame" by (simp add: example_defs)
  have h2: "handIndexOf ''JC'' (hand (playerOf Player (players midGame))) = Some 1"
    by (simp add: example_defs)
  have h3: "0 < length (piles (playerOf Player (players midGame)))"
    by (simp add: example_defs)
  have h4: "mkCard ''JC'' Clubs Jack = hand (playerOf Player (players midGame)) ! 1"
    by (simp add: example_defs)
  have h5: "[mkCard ''5H'' Hearts Five] = cards (piles (playerOf Player (players midGame)) ! 0)"
    by (simp add: example_defs)
  have h6: "ok (canPlaceCardOnTargetWithReason (mkCard ''JC'' Clubs Jack)
         [mkCard ''5H'' Hearts Five] Player Player)"
    by (simp add: example_defs canPlaceCardOnTargetWithReason_def accept_def)
  have h7: "isNumericOrAce (mkCard ''JC'' Clubs Jack) \<or>
         (isFaceCard (mkCard ''JC'' Clubs Jack) \<and> Some 0 = None \<and>
          [mkCard ''5H'' Hearts Five] = [] \<and> rank (mkCard ''JC'' Clubs Jack) \<noteq> King) \<or>
         (isFaceCard (mkCard ''JC'' Clubs Jack) \<and>
          (\<exists>k. Some 0 = Some k \<and> k < length [mkCard ''5H'' Hearts Five] \<and>
            (rank (mkCard ''JC'' Clubs Jack) = King \<longrightarrow>
               isNumericOrAce ([mkCard ''5H'' Hearts Five] ! k) \<and>
               \<not> removed ([mkCard ''5H'' Hearts Five] ! k))))"
    by (simp add: example_defs)
  from placeCard_commits[where validate=canPlaceCardOnTargetWithReason and now=7,
      OF h1 h2 h3 h4 h5 h6 h7]
  obtain g' where g': "placeCard canPlaceCardOnTargetWithReason 7 Player Player ''JC'' 0 (Some 0) midGame = Inr g'"
    and "hand (playerOf Player (players g')) =
           [mkCard ''QD'' Diamonds Queen, mkCard ''KS'' Spades King,
            mkCard ''3S'' Spades Three, mkCard ''7C'' Clubs Seven]"
    and "deck g' = [mkCard ''2D'' Diamonds Two]"
    and "piles (playerOf Player (players g')) =
           [\<lparr>cards = [(mkCard ''5H'' Hearts Five)\<lparr>removed := True\<rparr>, mkCard ''JC'' Clubs Jack]\<rparr>,
            \<lparr>cards = []\<rparr>, \<lparr>cards = []\<rparr>]"
    and "turn g' = AI" and "length (moveLog g') = 3" and "moveCount g' = 3"
    by (auto simp add: example_defs)
  with h1 h2 h6 show ?thesis by blast
qed

text \<open>The explicit target checks of \<open>placeCard\<close>, and the pile they let through.\<close>

lemma resolveNewRaw_checks_pass:
  assumes "isNumericOrAce c \<or>
         (isFaceCard c \<and> tvi = None \<and> pc = [] \<and> rank c \<noteq> King) \<or>
         (isFaceCard c \<and> (\<exists>k. tvi = Some k \<and> k < length pc \<and>
            (rank c = King \<longrightarrow> isNumericOrAce (pc ! k) \<and> \<not> removed (pc ! k))))"
  shows "resolveNewRaw c pc tvi =
     Inr (if isNumericOrAce c then pc @ [c]
          else (case tvi of
              None \<Rightarrow> pc @ [c]
            | Some k \<Rightarrow>
                if rank c = Jack
                then take k pc @ [(pc ! k)\<lparr>removed := True\<rparr>, c] @ drop (Suc k) pc
                else take (Suc k) pc @ [c] @ drop (Suc k) pc))"
proof -
  consider (num) "isNumericOrAce c"
    | (empty) "isFaceCard c" "tvi = None" "pc = []" "rank c \<noteq> King"
    | (idx) k where "isFaceCard c" "tvi = Some k" "k < length pc"
        "rank c = King \<longrightarrow> isNumericOrAce (pc ! k) \<and> \<not> removed (pc ! k)"
    using assms by blast
  then show ?thesis
  proof cases
    case num
    then show ?thesis by (simp add: resolveNewRaw_numeric)
  next
    case empty
    then show ?thesis by (simp add: resolveNewRaw_face_empty face_not_numeric)
  next
    case idx
    from idx(1) have nn: "\<not> isNumericOrAce c" by (simp add: face_not_numeric)
    from idx(1) consider "rank c = Jack" | "rank c = Queen" | "rank c = King"
      by (auto simp: isFaceCard_def)
    then show ?thesis
    proof cases
      case 1
      with idx nn show ?thesis by (simp add: resolveNewRaw_jack)
    next
      case 2
      with idx nn show ?thesis by (simp add: resolveNewRaw_queen)
    next
      case 3
      with idx nn show ?thesis by (simp add: resolveNewRaw_king)
    qed
  qed
qed

text \<open>The drop handlers and probes do nothing for an owner whose turn it is not.\<close>

lemma drop_handlers_enforce_turn:
  assumes "sideOfString (owner p) \<noteq> Some (turn g)"
  shows "onDropToPlayerPileContainer validate now g i (Some p) = Inr g"
    and "onDropToAiPileContainer validate now g i (Some p) = Inr g"
    and "onDropToPlayerPileCard validate now g i k (Some p) = Inr g"
    and "onDropToAiPileCard validate now g i k (Some p) = Inr g"
    and "canDropOnTargetPileContainer can g t i (Some p) = Inr False"
    and "canDropOnTargetPileCard can g t i k (Some p) = Inr False"
  using assms
  by (simp_all add: onDropToPlayerPileContainer_def onDropToAiPileContainer_def
      onDropToPlayerPileCard_def onDropToAiPileCard_def dropOnPileContainer_def
      dropOnPileCard_def canDropOnTargetPileContainer_def canDropOnTargetPileCard_def
      split: option.splits)

text \<open>
  C9. \<open>placeCard\<close> never reads \<open>turn\<close> to decide. When the game is not over, the actor
  holds the card, the pile index names a pile, and the validator and the target checks
  pass, the move is committed although it is not the actor's turn: the card leaves the
  hand, the front card of the deck (if any) is drawn, the card is put on the target
  pile (and the Jack's target marked removed), every other pile is unchanged, the turn
  goes to the actor's opponent, the move count is one more, and one entry is logged,
  whose \<open>prevTurn\<close> is the turn that was not the actor's. The same call on the state
  with any other value of \<open>turn\<close> returns the same state but for that \<open>prevTurn\<close>. The
  turn is enforced outside \<open>placeCard\<close>: the four drop handlers and the two drop
  probes do nothing for a payload whose owner is not the side to move, and the AI's
  timer callback does nothing unless it is the AI's turn.
\<close>

theorem placeCard_ignores_turn:
  assumes "\<not> gameOver g"
    and "handIndexOf cid (hand (playerOf a (players g))) = Some hi"
    and "pidx < length (piles (playerOf t (players g)))"
    and "c = hand (playerOf a (players g)) ! hi"
    and "pc = cards (piles (playerOf t (players g)) ! pidx)"
    and "ok (validate c pc a t)"
    and "isNumericOrAce c \<or>
         (isFaceCard c \<and> tvi = None \<and> pc = [] \<and> rank c \<noteq> King) \<or>
         (isFaceCard c \<and> (\<exists>k. tvi = Some k \<and> k < length pc \<and>
            (rank c = King \<longrightarrow> isNumericOrAce (pc ! k) \<and> \<not> removed (pc ! k))))"
    and "turn g \<noteq> a"
  shows "\<exists>g' newRaw e.
      placeCard validate now a t cid pidx tvi g = Inr g' \<and>
      newRaw =
        (if isNumericOrAce c then pc @ [c]
         else (case tvi of
             None \<Rightarrow> pc @ [c]
           | Some k \<Rightarrow>
               if rank c = Jack
               then take k pc @ [(pc ! k)\<lparr>removed := True\<rparr>, c] @ drop (Suc k) pc
               else take (Suc k) pc @ [c] @ drop (Suc k) pc)) \<and>
      e = \<lparr>actor = a, target = t, cardRank = rank c, pileIndex = pidx,
           targetVisibleIndex = tvi, aiEnabledAtMove = aiEnabled g, prevTurn = turn g,
           nextTurn = opponent a, time = now, pileBeforeSize = None\<rparr> \<and>
      hand (playerOf a (players g')) =
        take hi (hand (playerOf a (players g))) @
        drop (Suc hi) (hand (playerOf a (players g))) @ take 1 (deck g) \<and>
      deck g' = drop 1 (deck g) \<and>
      piles (playerOf t (players g')) =
        (piles (playerOf t (players g)))
          [pidx := (piles (playerOf t (players g)) ! pidx)\<lparr>cards := newRaw\<rparr>] \<and>
      (a \<noteq> t \<longrightarrow> piles (playerOf a (players g')) = piles (playerOf a (players g)) \<and>
                  hand (playerOf t (players g')) = hand (playerOf t (players g))) \<and>
      turn g' = opponent a \<and> turn g' = turn g \<and>
      moveLog g' = moveLog g @ [e] \<and>
      moveCount g' = moveCount g + 1 \<and>
      (\<forall>tr. placeCard validate now a t cid pidx tvi (g\<lparr>turn := tr\<rparr>) =
              Inr (g'\<lparr>moveLog := moveLog g @ [e\<lparr>prevTurn := tr\<rparr>]\<rparr>)) \<and>
      (\<forall>p i k. sideOfString (owner p) \<noteq> Some (turn g) \<longrightarrow>
         onDropToPlayerPileContainer validate now g i (Some p) = Inr g \<and>
         onDropToAiPileContainer validate now g i (Some p) = Inr g \<and>
         onDropToPlayerPileCard validate now g i k (Some p) = Inr g \<and>
         onDropToAiPileCard validate now g i k (Some p) = Inr g \<and>
         canDropOnTargetPileContainer can g t i (Some p) = Inr False \<and>
         canDropOnTargetPileCard can g t i k (Some p) = Inr False) \<and>
      (turn g \<noteq> AI \<longrightarrow>
         aiTimerCallback can validate now r currentToken localToken scheduledMoveCount g =
           Inr g)"
proof -
  let ?tp = "piles (playerOf t (players g)) ! pidx"
  let ?newRaw = "if isNumericOrAce c then pc @ [c]
         else (case tvi of
             None \<Rightarrow> pc @ [c]
           | Some k \<Rightarrow>
               if rank c = Jack
               then take k pc @ [(pc ! k)\<lparr>removed := True\<rparr>, c] @ drop (Suc k) pc
               else take (Suc k) pc @ [c] @ drop (Suc k) pc)"
  let ?e = "\<lparr>actor = a, target = t, cardRank = rank c, pileIndex = pidx,
           targetVisibleIndex = tvi, aiEnabledAtMove = aiEnabled g, prevTurn = turn g,
           nextTurn = opponent a, time = now, pileBeforeSize = None\<rparr>"
  have tp: "at (piles (playerOf t (players g))) pidx = Some ?tp"
    using assms(3) by (rule at_Some)
  have okv: "ok (validate (hand (playerOf a (players g)) ! hi) (cards ?tp) a t)"
    using assms(4,5,6) by simp
  have res: "resolveNewRaw (hand (playerOf a (players g)) ! hi) (cards ?tp) tvi = Inr ?newRaw"
    using resolveNewRaw_checks_pass[OF assms(7)] assms(4,5) by simp
  from placeCard_commit[where validate=validate and now=now, OF assms(1,2) tp okv res]
  obtain g' where g': "placeCard validate now a t cid pidx tvi g = Inr g'"
    "hand (playerOf a (players g')) =
        take hi (hand (playerOf a (players g))) @
        drop (Suc hi) (hand (playerOf a (players g))) @ take 1 (deck g)"
    "deck g' = drop 1 (deck g)"
    "piles (playerOf t (players g')) =
        (piles (playerOf t (players g)))[pidx := ?tp\<lparr>cards := ?newRaw\<rparr>]"
    "a \<noteq> t \<longrightarrow> piles (playerOf a (players g')) = piles (playerOf a (players g)) \<and>
                  hand (playerOf t (players g')) = hand (playerOf t (players g))"
    "turn g' = opponent a"
    "moveCount g' = moveCount g + 1"
    "moveLog g' = moveLog g @
           [\<lparr>actor = a, target = t, cardRank = rank (hand (playerOf a (players g)) ! hi),
             pileIndex = pidx, targetVisibleIndex = tvi, aiEnabledAtMove = aiEnabled g,
             prevTurn = turn g, nextTurn = opponent a, time = now,
             pileBeforeSize = None\<rparr>]"
    by blast
  have logged: "moveLog g' = moveLog g @ [?e]"
    using g'(8) assms(4) by simp
  have sameturn: "turn g' = turn g"
    using g'(6) assms(8) by (cases a; cases "turn g") (simp_all add: opponent_def)
  have other: "\<forall>tr. placeCard validate now a t cid pidx tvi (g\<lparr>turn := tr\<rparr>) =
      Inr (g'\<lparr>moveLog := moveLog g @ [?e\<lparr>prevTurn := tr\<rparr>]\<rparr>)"
    using assms(1,2,4) okv res tp g'(1)
    by (cases "deck g"; cases a; cases t)
      (auto simp add: placeCard_def Let_def split: if_splits)
  have enforce: "\<forall>p i k. sideOfString (owner p) \<noteq> Some (turn g) \<longrightarrow>
         onDropToPlayerPileContainer validate now g i (Some p) = Inr g \<and>
         onDropToAiPileContainer validate now g i (Some p) = Inr g \<and>
         onDropToPlayerPileCard validate now g i k (Some p) = Inr g \<and>
         onDropToAiPileCard validate now g i k (Some p) = Inr g \<and>
         canDropOnTargetPileContainer can g t i (Some p) = Inr False \<and>
         canDropOnTargetPileCard can g t i k (Some p) = Inr False"
    by (intro allI impI conjI) (simp_all add: drop_handlers_enforce_turn)
  have sched: "turn g \<noteq> AI \<longrightarrow>
      aiTimerCallback can validate now r currentToken localToken scheduledMoveCount g = Inr g"
    by (simp add: aiTimerCallback_def)
  show ?thesis
    apply (rule exI[of _ g'])
    apply (rule exI[of _ ?newRaw])
    apply (rule exI[of _ ?e])
    apply (intro conjI)
                apply (rule g'(1))
               apply (rule refl)
              apply (rule refl)
             apply (rule g'(2))
            apply (rule g'(3))
           apply (rule g'(4))
          apply (rule g'(5))
         apply (rule g'(6))
        apply (rule sameturn)
       apply (rule logged)
      apply (rule g'(7))
     apply (rule other)
    apply (rule enforce)
    apply (rule sched)
    done
qed

theorem placeCard_ignores_turn_witness:
  "\<not> gameOver aiTurnGame \<and> turn aiTurnGame = AI \<and>
   handIndexOf ''3S'' (hand (playerOf Player (players aiTurnGame))) = Some 3 \<and>
   (\<exists>g'. placeCard canPlaceCardOnTargetWithReason 0 Player Player ''3S'' 1 None aiTurnGame =
            Inr g' \<and>
         hand (playerOf Player (players g')) =
           [mkCard ''QD'' Diamonds Queen, mkCard ''JC'' Clubs Jack,
            mkCard ''KS'' Spades King, mkCard ''7C'' Clubs Seven] \<and>
         deck g' = [mkCard ''2D'' Diamonds Two] \<and>
         piles (playerOf Player (players g')) =
           [\<lparr>cards = [mkCard ''5H'' Hearts Five]\<rparr>,
            \<lparr>cards = [mkCard ''3S'' Spades Three]\<rparr>, \<lparr>cards = []\<rparr>] \<and>
         moveCount g' = 3 \<and> turn g' = AI \<and> length (moveLog g') = 3 \<and>
         actor (last (moveLog g')) = Player \<and> prevTurn (last (moveLog g')) = AI) \<and>
   sideOfString (owner playerThree) = Some Player \<and>
   onDropToPlayerPileContainer canPlaceCardOnTargetWithReason 0 aiTurnGame 1
     (Some playerThree) = Inr aiTurnGame \<and>
   canDropOnTargetPileContainer canPlaceCardOnTarget aiTurnGame Player 1
     (Some playerThree) = Inr False"
proof -
  let ?g = "aiTurnGame"
  let ?c = "mkCard ''3S'' Spades Three"
  have h1: "\<not> gameOver ?g" by (simp add: aiTurnGame_def example_defs)
  have h2: "handIndexOf ''3S'' (hand (playerOf Player (players ?g))) = Some 3"
    by (simp add: aiTurnGame_def example_defs)
  have h3: "1 < length (piles (playerOf Player (players ?g)))"
    by (simp add: aiTurnGame_def example_defs)
  have h4: "?c = hand (playerOf Player (players ?g)) ! 3"
    by (simp add: aiTurnGame_def example_defs)
  have h5: "[] = cards (piles (playerOf Player (players ?g)) ! 1)"
    by (simp add: aiTurnGame_def example_defs)
  have h6: "ok (canPlaceCardOnTargetWithReason ?c [] Player Player)"
    by (simp add: example_defs canPlaceCardOnTargetWithReason_def numericLegal_def
        liveNumericValues_def accept_def)
  have h7: "isNumericOrAce ?c \<or>
         (isFaceCard ?c \<and> None = None \<and> [] = [] \<and> rank ?c \<noteq> King) \<or>
         (isFaceCard ?c \<and> (\<exists>k. None = Some k \<and> k < length [] \<and>
            (rank ?c = King \<longrightarrow> isNumericOrAce ([] ! k) \<and> \<not> removed ([] ! k))))"
    by (simp add: example_defs)
  have h8: "turn ?g \<noteq> Player" and t: "turn ?g = AI" by (simp_all add: aiTurnGame_def)
  have s: "sideOfString (owner playerThree) = Some Player"
    by (simp add: sideOfString_def playerThree_def)
  then have ns: "sideOfString (owner playerThree) \<noteq> Some (turn ?g)" using t by simp
  from placeCard_ignores_turn[where validate=canPlaceCardOnTargetWithReason and now=0
      and can=canPlaceCardOnTarget, OF h1 h2 h3 h4 h5 h6 h7 h8] ns
  obtain g' where "placeCard canPlaceCardOnTargetWithReason 0 Player Player ''3S'' 1 None ?g =
        Inr g'"
    and "hand (playerOf Player (players g')) =
           [mkCard ''QD'' Diamonds Queen, mkCard ''JC'' Clubs Jack,
            mkCard ''KS'' Spades King, mkCard ''7C'' Clubs Seven]"
    and "deck g' = [mkCard ''2D'' Diamonds Two]"
    and "piles (playerOf Player (players g')) =
           [\<lparr>cards = [mkCard ''5H'' Hearts Five]\<rparr>,
            \<lparr>cards = [mkCard ''3S'' Spades Three]\<rparr>, \<lparr>cards = []\<rparr>]"
    and "moveCount g' = 3" and "turn g' = AI" and "length (moveLog g') = 3"
    and "actor (last (moveLog g')) = Player" and "prevTurn (last (moveLog g')) = AI"
    and "onDropToPlayerPileContainer canPlaceCardOnTargetWithReason 0 ?g 1
           (Some playerThree) = Inr ?g"
    and "canDropOnTargetPileContainer canPlaceCardOnTarget ?g Player 1
           (Some playerThree) = Inr False"
    by (auto simp add: aiTurnGame_def example_defs)
  with h1 h2 t s show ?thesis by blast
qed

section \<open>The skipped AI turn\<close>

text \<open>
  C7. When the timer callback of the AI runs on its turn (game not over, AI enabled,
  token and move count unchanged since scheduling) and the enumeration yields no
  candidate, the result is the prior state with \<open>turn\<close> set to the human player and the
  skip message set: players (hands and piles), deck, move count and move log are
  unchanged.
\<close>

theorem ai_skip_changes_turn_and_message_only:
  assumes "\<not> gameOver g" and "aiEnabled g" and "turn g = AI"
    and "currentToken = localToken" and "moveCount g = scheduledMoveCount"
    and "aiMoves can g = Inr []"
  shows "\<exists>g'. aiTimerCallback can validate now r currentToken localToken scheduledMoveCount g =
              Inr g' \<and>
           g' = g\<lparr>turn := Player, message := Some ''Opponent skipped (no valid moves).''\<rparr> \<and>
           players g' = players g \<and> deck g' = deck g \<and> moveCount g' = moveCount g \<and>
           moveLog g' = moveLog g \<and> turn g' = Player"
  using assms by (simp add: aiTimerCallback_def)

theorem ai_skip_changes_turn_and_message_only_witness:
  "\<not> gameOver stuckGame \<and> aiEnabled stuckGame \<and> turn stuckGame = AI \<and>
   moveCount stuckGame = 1 \<and> aiMoves canPlaceCardOnTarget stuckGame = Inr [] \<and>
   aiTimerCallback canPlaceCardOnTarget canPlaceCardOnTargetWithReason 0 0 4 4 1 stuckGame =
     Inr (stuckGame\<lparr>turn := Player,
            message := Some ''Opponent skipped (no valid moves).''\<rparr>)"
proof -
  have h1: "\<not> gameOver stuckGame" and h2: "aiEnabled stuckGame"
    and h3: "turn stuckGame = AI" and h5: "moveCount stuckGame = 1"
    by (simp_all add: example_defs)
  have h4: "(4::nat) = 4" by simp
  have h6: "aiMoves canPlaceCardOnTarget stuckGame = Inr []"
    by (simp add: aiMoves_def ownPileMoves_def opponentPileMoves_def example_defs
        canPlaceCardOnTarget_def canPlaceCardOnTargetWithReason_def reject_def
        isLiveNumeric_def)
  from ai_skip_changes_turn_and_message_only[where validate=canPlaceCardOnTargetWithReason
      and now=0 and r=0, OF h1 h2 h3 h4 h5 h6]
  have "aiTimerCallback canPlaceCardOnTarget canPlaceCardOnTargetWithReason 0 0 4 4 1 stuckGame =
     Inr (stuckGame\<lparr>turn := Player,
            message := Some ''Opponent skipped (no valid moves).''\<rparr>)"
    by simp
  with h1 h2 h3 h5 h6 show ?thesis by simp
qed

section \<open>The Jack and the empty pile\<close>

text \<open>
  C5. With the validator of the spec, a Jack is never accepted against an empty pile:
  the validator refuses it on either side, and every \<open>placeCard\<close> call that plays a
  Jack from the actor's hand onto a pile whose card list is empty returns the prior
  state with at most the message changed, so the pile stays empty and nothing is logged.
  (The checks of \<open>placeCard\<close> itself would append the Jack; the refusal is the
  validator's.)
\<close>

theorem jack_on_empty_pile_rejected:
  assumes "handIndexOf cid (hand (playerOf a (players g))) = Some hi"
    and "rank (hand (playerOf a (players g)) ! hi) = Jack"
    and "pidx < length (piles (playerOf t (players g)))"
    and "cards (piles (playerOf t (players g)) ! pidx) = []"
  shows "\<not> ok (canPlaceCardOnTargetWithReason (hand (playerOf a (players g)) ! hi) [] a t) \<and>
         (\<exists>g'. placeCard canPlaceCardOnTargetWithReason now a t cid pidx tvi g = Inr g' \<and>
               (\<exists>m. g' = g\<lparr>message := m\<rparr>) \<and>
               cards (piles (playerOf t (players g')) ! pidx) = [] \<and>
               players g' = players g \<and> moveLog g' = moveLog g \<and>
               moveCount g' = moveCount g \<and> turn g' = turn g)"
proof -
  let ?c = "hand (playerOf a (players g)) ! hi"
  let ?tp = "piles (playerOf t (players g)) ! pidx"
  have tp: "at (piles (playerOf t (players g))) pidx = Some ?tp"
    using assms(3) by (rule at_Some)
  have nok: "\<not> ok (canPlaceCardOnTargetWithReason ?c [] a t)"
    using assms(2)
    by (simp add: canPlaceCardOnTargetWithReason_def isNumericOrAce_def isFaceCard_def
        reject_def)
  then have nok': "\<not> ok (canPlaceCardOnTargetWithReason ?c (cards ?tp) a t)"
    using assms(4) by simp
  have "\<exists>m. placeCard canPlaceCardOnTargetWithReason now a t cid pidx tvi g =
      Inr (g\<lparr>message := m\<rparr>)"
  proof (cases "gameOver g")
    case True
    then have "placeCard canPlaceCardOnTargetWithReason now a t cid pidx tvi g =
        Inr (g\<lparr>message := message g\<rparr>)"
      by (simp add: placeCard_gameOver)
    then show ?thesis ..
  next
    case False
    from placeCard_invalid[where validate=canPlaceCardOnTargetWithReason,
        OF False assms(1) tp nok']
    show ?thesis ..
  qed
  then obtain m where
    "placeCard canPlaceCardOnTargetWithReason now a t cid pidx tvi g = Inr (g\<lparr>message := m\<rparr>)" ..
  with nok assms(4) show ?thesis by auto
qed

theorem jack_on_empty_pile_rejected_witness:
  "handIndexOf ''JC'' (hand (playerOf Player (players midGame))) = Some 1 \<and>
   rank (hand (playerOf Player (players midGame)) ! 1) = Jack \<and>
   cards (piles (playerOf Player (players midGame)) ! 1) = [] \<and>
   \<not> ok (canPlaceCardOnTargetWithReason (hand (playerOf Player (players midGame)) ! 1) []
          Player Player) \<and>
   (\<exists>m. placeCard canPlaceCardOnTargetWithReason 0 Player Player ''JC'' 1 None midGame =
          Inr (midGame\<lparr>message := m\<rparr>))"
proof -
  have h1: "handIndexOf ''JC'' (hand (playerOf Player (players midGame))) = Some 1"
    and h2: "rank (hand (playerOf Player (players midGame)) ! 1) = Jack"
    and h3: "1 < length (piles (playerOf Player (players midGame)))"
    and h4: "cards (piles (playerOf Player (players midGame)) ! 1) = []"
    by (simp_all add: example_defs)
  from jack_on_empty_pile_rejected[where now=0 and tvi=None, OF h1 h2 h3 h4] h1 h2 h4
  show ?thesis by auto
qed

text \<open>
  What the checks of \<open>placeCard\<close> alone do with a Jack on an empty pile: once the
  validator lets it through, the Jack is appended and becomes the pile's first card.
\<close>

lemma placeCard_alone_appends_jack:
  "placeCard acceptAll 0 Player Player ''JC'' 1 None openingGame = Inr jackLoggedGame"
  by (simp add: placeCard_def openingGame_def jackLoggedGame_def acceptAll_def accept_def
      example_defs resolveNewRaw_def Let_def setPlayer_def mapIdx_def spliceRemove_def)

section \<open>The invariant checker\<close>

text \<open>
  The checks of \<open>runInvariants\<close>, one by one: each reports an error exactly when its
  condition fails on the state it is given.
\<close>

lemma runInvariants_moveCount: "reportMoveCount (runInvariants g) = length (moveLog g)"
  by (simp add: runInvariants_def Let_def split_def)

lemma alternationCheck_reports:
  "fst (alternationCheck i log) \<noteq> [] \<longleftrightarrow>
     (\<exists>k. Suc k < length log \<and> actor (log ! k) = actor (log ! Suc k))"
proof (induction i log rule: alternationCheck.induct)
  case (1 i prevE currE rest)
  show ?case
  proof (cases "actor prevE = actor currE")
    case True
    then have "Suc 0 < length (prevE # currE # rest) \<and>
        actor ((prevE # currE # rest) ! 0) = actor ((prevE # currE # rest) ! Suc 0)"
      by simp
    then have "\<exists>k. Suc k < length (prevE # currE # rest) \<and>
        actor ((prevE # currE # rest) ! k) = actor ((prevE # currE # rest) ! Suc k)"
      by (rule exI)
    with True show ?thesis by simp
  next
    case False
    have "(\<exists>k. Suc k < length (prevE # currE # rest) \<and>
        actor ((prevE # currE # rest) ! k) = actor ((prevE # currE # rest) ! Suc k)) \<longleftrightarrow>
      (\<exists>k. Suc k < length (currE # rest) \<and>
        actor ((currE # rest) ! k) = actor ((currE # rest) ! Suc k))"
      (is "?L \<longleftrightarrow> ?R")
    proof
      assume ?L
      then obtain k where k: "Suc k < length (prevE # currE # rest)"
        "actor ((prevE # currE # rest) ! k) = actor ((prevE # currE # rest) ! Suc k)"
        by blast
      with False obtain j where "k = Suc j" by (cases k) auto
      with k show ?R by auto
    next
      assume ?R
      then obtain k where "Suc k < length (currE # rest)"
        "actor ((currE # rest) ! k) = actor ((currE # rest) ! Suc k)" by blast
      then have "Suc (Suc k) < length (prevE # currE # rest) \<and>
        actor ((prevE # currE # rest) ! Suc k) = actor ((prevE # currE # rest) ! Suc (Suc k))"
        by simp
      then show ?L by (rule exI)
    qed
    with False "1.IH" show ?thesis by (simp add: split_def)
  qed
qed simp_all

lemma turnCheck_reports:
  "fst (turnCheck g) \<noteq> [] \<longleftrightarrow>
     \<not> gameOver g \<and> moveLog g \<noteq> [] \<and> turn g \<noteq> opponent (actor (last (moveLog g)))"
  by (simp add: turnCheck_def Let_def opponent_def)

lemma jackCheck_reports:
  "fst (jackCheck i log) \<noteq> [] \<longleftrightarrow>
     (\<exists>m \<in> set log. cardRank m = Jack \<and> pileBeforeSize m = Some 0)"
  by (induction log arbitrary: i) auto

lemma opponentCheck_reports:
  "fst (opponentCheck i log) \<noteq> [] \<longleftrightarrow>
     (\<exists>m \<in> set log. actor m \<noteq> target m \<and> cardRank m \<notin> {Jack, Queen, King})"
  by (induction log arbitrary: i) (auto simp add: split_def)

lemma deckCheck_reports: "fst (deckCheck g) = []"
  by (simp add: deckCheck_def)

lemma runInvariants_errors:
  "errors (runInvariants g) =
     fst (alternationCheck 1 (moveLog g)) @ fst (turnCheck g) @ fst (jackCheck 0 (moveLog g)) @
     fst (opponentCheck 0 (moveLog g)) @ fst (deckCheck g)"
  by (simp add: runInvariants_def Let_def split_def)

text \<open>The entry that a committed \<open>placeCard\<close> appends never has \<open>pileBeforeSize\<close>.\<close>

lemma placeCard_logs_no_pileBeforeSize:
  assumes "placeCard validate now a t cid pidx tvi g = Inr g'"
    and "\<forall>m \<in> set (moveLog g). pileBeforeSize m = None"
  shows "\<forall>m \<in> set (moveLog g'). pileBeforeSize m = None"
  using assms
  by (auto simp add: placeCard_def Let_def split: if_splits option.splits sum.splits prod.splits)

text \<open>On such a log the Jack check finds nothing, whatever was played.\<close>

lemma jackCheck_blind:
  "\<forall>m \<in> set log. pileBeforeSize m = None \<Longrightarrow> jackCheck i log = ([], 0)"
  by (induction log arbitrary: i) auto

text \<open>
  C6 fails on the code. \<open>jackLoggedGame\<close> is a state whose log holds a Jack entry for
  a pile that was empty at play time, written as \<open>placeCard\<close> writes entries: without
  \<open>pileBeforeSize\<close>. \<open>runInvariants\<close> checks two conditions on it and reports no error.
\<close>

theorem runInvariants_misses_jack_on_empty_pile:
  "cards (piles (player (players openingGame)) ! 1) = [] \<and>
   placeCard acceptAll 0 Player Player ''JC'' 1 None openingGame = Inr jackLoggedGame \<and>
   cardRank (last (moveLog jackLoggedGame)) = Jack \<and>
   pileIndex (last (moveLog jackLoggedGame)) = 1 \<and>
   runInvariants jackLoggedGame = \<lparr>errors = [], checked = 2, reportMoveCount = 1\<rparr>"
proof -
  have "runInvariants jackLoggedGame = \<lparr>errors = [], checked = 2, reportMoveCount = 1\<rparr>"
    by (simp add: runInvariants_def turnCheck_def deckCheck_def jackLoggedGame_def)
  moreover have "cards (piles (player (players openingGame)) ! 1) = []"
    by (simp add: openingGame_def)
  moreover have "cardRank (last (moveLog jackLoggedGame)) = Jack"
    "pileIndex (last (moveLog jackLoggedGame)) = 1"
    by (simp_all add: jackLoggedGame_def)
  ultimately show ?thesis using placeCard_alone_appends_jack by simp
qed

section \<open>Pile totals\<close>

lemma rankValue_nonneg: "0 \<le> rankValue r"
  by (cases r) simp_all

lemma getCardValue_nonneg: "0 \<le> getCardValue c"
  by (simp add: getCardValue_def rankValue_nonneg)

lemma effectiveValue_nonneg: "0 \<le> effectiveValue rawCards i"
  by (simp add: effectiveValue_def getCardValue_nonneg)

lemma effectiveValue_Cons_Suc: "effectiveValue (c # cs) (Suc i) = effectiveValue cs i"
  by (simp add: effectiveValue_def)

lemma pileTotalSpec_Cons:
  "pileTotalSpec (c # cs) = effectiveValue (c # cs) 0 + pileTotalSpec cs"
  by (simp add: pileTotalSpec_def sum.lessThan_Suc_shift effectiveValue_Cons_Suc
      del: sum.lessThan_Suc)

text \<open>
  The invariant of the fold: from the state (closed, base, mult) the remaining cards
  \<open>cs\<close> add their own effective values, and the open slot is closed with the live
  Kings that \<open>cs\<close> still binds to it.
\<close>

lemma foldl_totalStep:
  "(case foldl totalStep (closed, base, mult) cs of (cl, b, m) \<Rightarrow> cl + b * m) =
     closed + base * mult * 2 ^ kingsBound cs + pileTotalSpec cs"
proof (induction cs arbitrary: closed base mult)
  case Nil
  show ?case by (simp add: pileTotalSpec_def)
next
  case (Cons c cs)
  show ?case
  proof (cases "isNumericOrAce c")
    case True
    then show ?thesis
      using Cons.IH[of "closed + base * mult" "if removed c then 0 else getCardValue c" 1]
      by (simp add: pileTotalSpec_Cons effectiveValue_def)
  next
    case False
    then show ?thesis
      using Cons.IH[of closed base "mult * 2"] Cons.IH[of closed base mult]
      by (simp add: pileTotalSpec_Cons effectiveValue_def)
  qed
qed

lemma computePileTotal_spec: "computePileTotal rawCards = pileTotalSpec rawCards"
  using foldl_totalStep[of 0 0 1 rawCards] by (simp add: computePileTotal_def)

lemma pileTotalSpec_nonneg: "0 \<le> pileTotalSpec rawCards"
  unfolding pileTotalSpec_def by (rule sum_nonneg) (simp add: effectiveValue_nonneg)

text \<open>
  C8. The pile total is the sum, over the positions \<open>i\<close> of the pile that hold a live
  numeric/Ace card, of the card's base value times 2 to the number of Kings bound to
  it; every other position contributes 0, a removed card in particular, whatever Kings
  follow it. The base values are 1 for the Ace, the number for 2-10 and 0 for Jack,
  Queen and King. No effective value, pile total or grand total of
  \<open>computePlayerTotals\<close> is negative, and the grand total is the sum of the pile totals.
\<close>

theorem pile_total_sums_live_values:
  "computePileTotal rawCards =
     (\<Sum>i < length rawCards.
        if isNumericOrAce (rawCards ! i) \<and> \<not> removed (rawCards ! i)
        then getCardValue (rawCards ! i) * 2 ^ kingsBound (drop (Suc i) rawCards)
        else 0) \<and>
   (\<forall>i < length rawCards. removed (rawCards ! i) \<longrightarrow> effectiveValue rawCards i = 0) \<and>
   map rankValue [Ace, Two, Three, Four, Five, Six, Seven, Eight, Nine, Ten, Jack, Queen, King] =
     [1, 2, 3, 4, 5, 6, 7, 8, 9, 10, 0, 0, 0] \<and>
   0 \<le> computePileTotal rawCards \<and>
   perPile (computePlayerTotals ps) = map (\<lambda>p. computePileTotal (cards p)) ps \<and>
   total (computePlayerTotals ps) = sum_list (perPile (computePlayerTotals ps)) \<and>
   (\<forall>x \<in> set (perPile (computePlayerTotals ps)). 0 \<le> x) \<and>
   0 \<le> total (computePlayerTotals ps)"
proof -
  have eq: "computePileTotal rawCards =
     (\<Sum>i < length rawCards.
        if isNumericOrAce (rawCards ! i) \<and> \<not> removed (rawCards ! i)
        then getCardValue (rawCards ! i) * 2 ^ kingsBound (drop (Suc i) rawCards)
        else 0)"
    by (simp add: computePileTotal_spec pileTotalSpec_def effectiveValue_def)
  have rem: "\<forall>i < length rawCards. removed (rawCards ! i) \<longrightarrow> effectiveValue rawCards i = 0"
    by (simp add: effectiveValue_def)
  have vals: "map rankValue
      [Ace, Two, Three, Four, Five, Six, Seven, Eight, Nine, Ten, Jack, Queen, King] =
     [1, 2, 3, 4, 5, 6, 7, 8, 9, 10, 0, 0, 0]"
    by simp
  have nn: "0 \<le> computePileTotal cs" for cs
    by (simp add: computePileTotal_spec pileTotalSpec_nonneg)
  have per: "perPile (computePlayerTotals ps) = map (\<lambda>p. computePileTotal (cards p)) ps"
    and tot: "total (computePlayerTotals ps) = sum_list (perPile (computePlayerTotals ps))"
    by (simp_all add: computePlayerTotals_def Let_def)
  have pernn: "\<forall>x \<in> set (perPile (computePlayerTotals ps)). 0 \<le> x"
    using nn by (auto simp add: per)
  then have totnn: "0 \<le> total (computePlayerTotals ps)"
    unfolding tot by (intro sum_list_nonneg) simp
  from eq rem vals nn[of rawCards] per tot pernn totnn show ?thesis by blast
qed

theorem pile_total_sums_live_values_witness:
  "computePileTotal kingPile = 27 \<and> 0 \<le> computePileTotal kingPile \<and>
   removed (kingPile ! 3) \<and> effectiveValue kingPile 3 = 0 \<and>
   effectiveValue kingPile 0 = 20 \<and> effectiveValue kingPile 7 = 7 \<and>
   perPile (computePlayerTotals [\<lparr>cards = kingPile\<rparr>, \<lparr>cards = []\<rparr>, \<lparr>cards = []\<rparr>]) =
     [27, 0, 0] \<and>
   total (computePlayerTotals [\<lparr>cards = kingPile\<rparr>, \<lparr>cards = []\<rparr>, \<lparr>cards = []\<rparr>]) = 27"
proof -
  have v: "computePileTotal kingPile = 27"
    by (simp add: computePileTotal_def kingPile_def mkCard_def isNumericOrAce_def
        isFaceCard_def isLiveKing_def getCardValue_def)
  have e: "computePileTotal [] = 0" by (simp add: computePileTotal_def)
  have r: "removed (kingPile ! 3)" by (simp add: kingPile_def)
  have e0: "effectiveValue kingPile 0 = 20" and e7: "effectiveValue kingPile 7 = 7"
    by (simp_all add: effectiveValue_def kingPile_def mkCard_def isNumericOrAce_def
        isFaceCard_def isLiveKing_def getCardValue_def)
  from pile_total_sums_live_values[of kingPile
      "[\<lparr>cards = kingPile\<rparr>, \<lparr>cards = []\<rparr>, \<lparr>cards = []\<rparr>]"] r
  have "0 \<le> computePileTotal kingPile" "effectiveValue kingPile 3 = 0"
    "perPile (computePlayerTotals [\<lparr>cards = kingPile\<rparr>, \<lparr>cards = []\<rparr>, \<lparr>cards = []\<rparr>]) =
       [computePileTotal kingPile, computePileTotal [], computePileTotal []]"
    "total (computePlayerTotals [\<lparr>cards = kingPile\<rparr>, \<lparr>cards = []\<rparr>, \<lparr>cards = []\<rparr>]) =
       sum_list (perPile (computePlayerTotals [\<lparr>cards = kingPile\<rparr>, \<lparr>cards = []\<rparr>, \<lparr>cards = []\<rparr>]))"
    by (simp_all add: kingPile_def)
  with v e r e0 e7 show ?thesis by simp
qed

section \<open>The direction law\<close>





















text \<open>
  The piles of the witness are the ones \<open>placeCard\<close> builds: the Queen dropped on the
  Ace is inserted right after it, the Queen dropped on the 5 comes last, and the Queen
  played on the empty pile comes first.
\<close>

lemma queen_piles_built_by_placeCard:
  "resolveNewRaw (mkCard ''QD'' Diamonds Queen) risingPile (Some 0) = Inr queenOnAcePile \<and>
   resolveNewRaw (mkCard ''QD'' Diamonds Queen) risingPile (Some 1) = Inr flippedPile \<and>
   resolveNewRaw (mkCard ''QD'' Diamonds Queen) [] None = Inr [mkCard ''QD'' Diamonds Queen]"
  by (simp add: resolveNewRaw_def risingPile_def queenOnAcePile_def flippedPile_def
      mkCard_def isNumericOrAce_def isFaceCard_def spliceInsert_def at_def)

end
